theory Spec2Isabelle
  imports Complex_Main "HOL-Library.AList" "HOL-Library.Sublist"
begin

section \<open>The flowchart engine of backend/ai/assistant/flowchart.py\<close>

text \<open>
  The theory embeds \<^verbatim>\<open>FlowchartLLMFramework\<close> (constructor, \<^verbatim>\<open>llm_function\<close>, \<^verbatim>\<open>run\<close>).
  Python dictionaries keep insertion order, so each one is an association list:
  \<^verbatim>\<open>d[k] = v\<close> is \<open>AList.update\<close> (an existing key keeps its place, a new key goes
  last) and a lookup is \<open>map_of\<close>; as a dictionary holds a key once, the lists that stand
  for dictionaries have distinct keys. The language model (\<^verbatim>\<open>ai.llm.ask_schema\<close>,
  \<^verbatim>\<open>ai.llm.ask_text\<close>) is outside the repository's engine: it is a parameter that
  threads a state of its own, so that it may answer differently at every call.
  The two calls to the logger write a message and are not part of the model.
\<close>

subsection \<open>Values\<close>

text \<open>What \<^verbatim>\<open>.dict()\<close> of a pydantic model holds under a field name.\<close>

datatype fval =
    FNone
  | FStr string
  | FInt int
  | FList "fval list"
  | FDict "(string \<times> fval) list"

text \<open>
  What the language model returns: a string (\<^verbatim>\<open>ask_text\<close>) or an instance of a pydantic
  model (\<^verbatim>\<open>ask_schema\<close>), given by the name of its class and its fields in declaration
  order.
\<close>

datatype pyobj =
    PyStr string
  | PyModel string "(string \<times> fval) list"

text \<open>The exceptions the engine can end with; \<open>LLMError\<close> is any exception of the model call.\<close>

datatype exn =
    KeyError string
  | ValueError string
  | AttributeError string
  | TypeError string
  | StopIteration
  | LLMError string

text \<open>
  The \<^verbatim>\<open>pymodel\<close> argument of \<^verbatim>\<open>ask_schema\<close>: the \<^verbatim>\<open>DecisionSchema\<close> that
  \<^verbatim>\<open>llm_function\<close> creates from the options, or the schema class a node declares.
\<close>

datatype pymodel =
    DecisionSchema "string list"
  | Schema string

subsection \<open>Flowchart, engine and collaborator\<close>

text \<open>
  A node is a dictionary; every key may be missing (\<open>ntext\<close> is the key \<^verbatim>\<open>text\<close>,
  \<open>ntype\<close> the key \<^verbatim>\<open>type\<close>). The keys \<^verbatim>\<open>type\<close>, \<^verbatim>\<open>iterator\<close>
  and \<^verbatim>\<open>collection\<close> are the ones the flowchart of week_analyser.py declares on
  its loop nodes. The temperature is only handed on to \<^verbatim>\<open>ask_text\<close>, never computed with.
\<close>

record node =
  ntext :: "string option"
  connections :: "(string \<times> string) list option"
  schema :: "string option"
  temperature :: "real option"
  ntype :: "string option"
  iterator :: "string option"
  collection :: "string option"

type_synonym flowchart = "(string \<times> node) list"

record engine =
  flowchart :: flowchart
  system_prompt :: string
  start_node :: string
  extracted :: "(string \<times> pyobj) list"
  visited_nodes :: "string list"
  decisions :: "(string \<times> string) list"
  reasoning :: "(string \<times> string) list"

text \<open>
  The collaborator: \<^verbatim>\<open>ask_schema(text, system, pymodel, model)\<close> and
  \<^verbatim>\<open>ask_text(text, system, model, temperature)\<close>, each from its state \<open>'w\<close> to a result
  or an exception and the next state; \<open>LLM_MODEL\<close> is the constant of that name, and
  \<open>dict_str\<close> is Python's formatting of a dictionary inside an f-string.
\<close>

record 'w llm =
  ask_schema :: "string \<Rightarrow> string \<Rightarrow> pymodel \<Rightarrow> string \<Rightarrow> 'w \<Rightarrow> (exn + pyobj) \<times> 'w"
  ask_text :: "string \<Rightarrow> string \<Rightarrow> string \<Rightarrow> real \<Rightarrow> 'w \<Rightarrow> (exn + pyobj) \<times> 'w"
  LLM_MODEL :: string
  dict_str :: "(string \<times> fval) list \<Rightarrow> string"

text \<open>\<^verbatim>\<open>node.get("connections", {})\<close>\<close>

definition get_connections :: "node \<Rightarrow> (string \<times> string) list" where
  "get_connections n = (case connections n of None \<Rightarrow> [] | Some c \<Rightarrow> c)"

subsection \<open>The constructor\<close>

text \<open>
  \<^verbatim>\<open>any(node_id in n.get("connections", {}).values() for n in flowchart.values())\<close>
\<close>

definition is_target :: "flowchart \<Rightarrow> string \<Rightarrow> bool" where
  "is_target fc node_id =
     list_ex (\<lambda>n. node_id \<in> set (map snd (get_connections n))) (map snd fc)"

text \<open>
  \<^verbatim>\<open>__init__\<close>: \<^verbatim>\<open>next(...)\<close> takes the first node id, in the order of the dictionary,
  that no connection leads to, and raises \<^verbatim>\<open>StopIteration\<close> when there is none.
\<close>

definition init :: "flowchart \<Rightarrow> string \<Rightarrow> exn + engine" where
  "init fc sp =
     (case find (\<lambda>node_id. \<not> is_target fc node_id) (map fst fc) of
        None \<Rightarrow> Inl StopIteration
      | Some node_id \<Rightarrow>
          Inr \<lparr>flowchart = fc, system_prompt = sp, start_node = node_id, extracted = [],
               visited_nodes = [], decisions = [], reasoning = []\<rparr>)"

subsection \<open>The model call\<close>

text \<open>\<^verbatim>\<open>f"<focus>'{node_text}'</focus>\n Context\n{context['initial_input']}\n"\<close>\<close>

definition full_prompt :: "string \<Rightarrow> string \<Rightarrow> string" where
  "full_prompt node_text initial_input =
     ''<focus>'' @ [CHR 0x27] @ node_text @ [CHR 0x27] @ ''</focus>'' @ [CHR 0x0A]
       @ '' Context'' @ [CHR 0x0A] @ initial_input @ [CHR 0x0A]"

text \<open>
  \<^verbatim>\<open>result.decision\<close>, \<^verbatim>\<open>result.reasoning\<close>: \<^verbatim>\<open>DecisionSchema\<close> declares both as
  \<^verbatim>\<open>str\<close>; a result without such a field raises \<^verbatim>\<open>AttributeError\<close>.
\<close>

definition getattr_str :: "pyobj \<Rightarrow> string \<Rightarrow> exn + string" where
  "getattr_str obj a =
     (case obj of
        PyStr _ \<Rightarrow> Inl (AttributeError a)
      | PyModel _ fs \<Rightarrow>
          (case map_of fs a of Some (FStr v) \<Rightarrow> Inr v | _ \<Rightarrow> Inl (AttributeError a)))"

text \<open>
  \<^verbatim>\<open>llm_function\<close>. \<open>options\<close> is the list given by the caller, \<open>[]\<close> also standing for
  the default \<^verbatim>\<open>None\<close> (both are false in \<^verbatim>\<open>if options\<close>); \<open>schema\<close> is \<open>None\<close> or a
  class, which is true in \<^verbatim>\<open>if schema\<close>. The \<^verbatim>\<open>except\<close> clause logs and raises again.
  The result carries the engine, whose \<^verbatim>\<open>decisions\<close> and \<^verbatim>\<open>reasoning\<close> a decision writes.
\<close>

definition llm_function ::
  "'w llm \<Rightarrow> engine \<Rightarrow> string \<Rightarrow> string \<Rightarrow> string \<Rightarrow> string list \<Rightarrow> string option \<Rightarrow> 'w
     \<Rightarrow> (exn + pyobj) \<times> engine \<times> 'w" where
  "llm_function env slf node_text initial_input current_node_id options sch w =
     (let prompt = full_prompt node_text initial_input in
      case map_of (flowchart slf) current_node_id of
        None \<Rightarrow> (Inl (KeyError current_node_id), slf, w)
      | Some nd \<Rightarrow>
          (let temp = (case temperature nd of None \<Rightarrow> 7 / 10 | Some t \<Rightarrow> t) in
           if options \<noteq> [] then
             (if sch \<noteq> None
              then (Inl (ValueError ''Schema not supported for decision nodes''), slf, w)
              else
                (case ask_schema env prompt (system_prompt slf) (DecisionSchema options)
                        (LLM_MODEL env) w of
                   (Inl e, w') \<Rightarrow> (Inl e, slf, w')
                 | (Inr result, w') \<Rightarrow>
                     (case getattr_str result ''decision'' of
                        Inl e \<Rightarrow> (Inl e, slf, w')
                      | Inr d \<Rightarrow>
                          (let slf1 = slf\<lparr>decisions :=
                                 AList.update current_node_id d (decisions slf)\<rparr> in
                           case getattr_str result ''reasoning'' of
                             Inl e \<Rightarrow> (Inl e, slf1, w')
                           | Inr r \<Rightarrow>
                               (Inr (PyStr d),
                                slf1\<lparr>reasoning :=
                                  AList.update current_node_id r (reasoning slf1)\<rparr>, w')))))
           else
             (case sch of
                Some sc \<Rightarrow>
                  (case ask_schema env prompt (system_prompt slf) (Schema sc) (LLM_MODEL env) w of
                     (res, w') \<Rightarrow> (res, slf, w'))
              | None \<Rightarrow>
                  (case ask_text env prompt (system_prompt slf) (LLM_MODEL env) temp w of
                     (res, w') \<Rightarrow> (res, slf, w')))))"

subsection \<open>One visit of the loop of \<^verbatim>\<open>run\<close>\<close>

text \<open>The values of a trace entry, which is a dictionary from field names.\<close>

datatype entry_val =
    ENone
  | EStr string
  | EOptions "string list"
  | EDict "(string \<times> fval) list"
  | EObj pyobj

type_synonym node_entry = "(string \<times> entry_val) list"

text \<open>
  The variables of \<^verbatim>\<open>run\<close>: \<^verbatim>\<open>self\<close>, \<^verbatim>\<open>current_node_id\<close>,
  \<^verbatim>\<open>context["initial_input"]\<close> and \<^verbatim>\<open>traversal\<close>.
\<close>

record loop_state =
  self :: engine
  current_node_id :: string
  initial_input :: string
  traversal :: "node_entry list"

datatype outcome =
    Continue
  | Return pyobj "(string \<times> pyobj) list"
  | Raise exn

text \<open>
  The context line of one extracted value. \<^verbatim>\<open>hasattr(data, "__class__")\<close> and
  \<^verbatim>\<open>hasattr(data.__class__, "__name__")\<close> hold of every Python object; a pydantic model
  has \<^verbatim>\<open>dict\<close>, a string has not and is rendered by \<^verbatim>\<open>str\<close>.
\<close>

fun class_name :: "pyobj \<Rightarrow> string" where
  "class_name (PyStr _) = ''str''"
| "class_name (PyModel c _) = c"

fun data_dict :: "'w llm \<Rightarrow> pyobj \<Rightarrow> string" where
  "data_dict env (PyStr s) = s"
| "data_dict env (PyModel _ fs) = dict_str env fs"

definition context_line :: "'w llm \<Rightarrow> pyobj \<Rightarrow> string" where
  "context_line env data =
     [CHR 0x0A, CHR 0x0A] @ ''Context: '' @ class_name data @ '': '' @ data_dict env data"

text \<open>
  \<^verbatim>\<open>node_prompt = current_node["text"]\<close>, then one \<^verbatim>\<open>node_prompt += ...\<close> for every item of
  \<^verbatim>\<open>self.extracted\<close>.
\<close>

fun node_prompt :: "'w llm \<Rightarrow> string \<Rightarrow> (string \<times> pyobj) list \<Rightarrow> string" where
  "node_prompt env acc [] = acc"
| "node_prompt env acc ((prev_node, data) # rest) =
     node_prompt env (acc @ context_line env data) rest"

text \<open>\<^verbatim>\<open>extracted_data.dict() if hasattr(extracted_data, "dict") else extracted_data\<close>\<close>

fun entry_of_extracted :: "pyobj \<Rightarrow> entry_val" where
  "entry_of_extracted (PyModel _ fs) = EDict fs"
| "entry_of_extracted obj = EObj obj"

text \<open>\<^verbatim>\<open>connections.get(decision, list(connections.values())[0])\<close>, on a non-empty dictionary.\<close>

definition next_of_decision :: "(string \<times> string) list \<Rightarrow> string \<Rightarrow> string" where
  "next_of_decision conns decision =
     (case map_of conns decision of Some t \<Rightarrow> t | None \<Rightarrow> snd (hd conns))"

text \<open>
  The body of \<^verbatim>\<open>while True\<close>. The decision branch calls \<^verbatim>\<open>llm_function\<close> without
  a schema, whatever the node declares. With options, \<^verbatim>\<open>llm_function\<close> returns the string
  \<^verbatim>\<open>result.decision\<close>, so the case of a model there is never taken.
\<close>

definition step :: "'w llm \<Rightarrow> loop_state \<Rightarrow> 'w \<Rightarrow> outcome \<times> loop_state \<times> 'w" where
  "step env s w =
     (case map_of (flowchart (self s)) (current_node_id s) of
        None \<Rightarrow> (Raise (KeyError (current_node_id s)), s, w)
      | Some current_node \<Rightarrow>
          (let s1 = s\<lparr>self := (self s)\<lparr>visited_nodes :=
                        visited_nodes (self s) @ [current_node_id s]\<rparr>\<rparr>;
               conns = get_connections current_node in
           case ntext current_node of
             None \<Rightarrow> (Raise (KeyError ''text''), s1, w)
           | Some txt \<Rightarrow>
               (let entry = [(''node'', EStr (current_node_id s)), (''text'', EStr txt),
                             (''options'', EOptions (map fst conns)), (''reasoning'', ENone),
                             (''decision'', ENone), (''next_node'', ENone),
                             (''extracted'', ENone)];
                    prompt = node_prompt env txt (extracted (self s1)) in
                if conns = [] then
                  (case llm_function env (self s1) prompt (initial_input s)
                          (current_node_id s) (map fst conns) (schema current_node) w of
                     (Inl e, slf, w') \<Rightarrow> (Raise e, s1\<lparr>self := slf\<rparr>, w')
                   | (Inr result, slf, w') \<Rightarrow>
                       (Return result (extracted slf),
                        s1\<lparr>self := slf,
                           traversal := traversal s1 @ [filter (\<lambda>(k, v). v \<noteq> ENone) entry]\<rparr>,
                        w'))
                else if length conns > 1 then
                  (case llm_function env (self s1) prompt (initial_input s)
                          (current_node_id s) (map fst conns) None w of
                     (Inl e, slf, w') \<Rightarrow> (Raise e, s1\<lparr>self := slf\<rparr>, w')
                   | (Inr (PyModel c fs), slf, w') \<Rightarrow>
                       (Raise (TypeError ''unhashable type''), s1\<lparr>self := slf\<rparr>, w')
                   | (Inr (PyStr decision), slf, w') \<Rightarrow>
                       (let next_node = next_of_decision conns decision;
                            entry1 = AList.update ''decision'' (EStr decision) entry;
                            entry2 = AList.update ''reasoning''
                              (case map_of (reasoning slf) (current_node_id s) of
                                 None \<Rightarrow> ENone | Some r \<Rightarrow> EStr r) entry1;
                            entry3 = AList.update ''next_node'' (EStr next_node) entry2 in
                        (Continue,
                         s1\<lparr>self := slf, traversal := traversal s1 @ [entry3],
                            current_node_id := next_node\<rparr>, w')))
                else
                  (case schema current_node of
                     Some sc \<Rightarrow>
                       (case llm_function env (self s1) prompt (initial_input s)
                               (current_node_id s) [] (Some sc) w of
                          (Inl e, slf, w') \<Rightarrow> (Raise e, s1\<lparr>self := slf\<rparr>, w')
                        | (Inr extracted_data, slf, w') \<Rightarrow>
                            (let slf1 = slf\<lparr>extracted :=
                                   AList.update (current_node_id s) extracted_data
                                     (extracted slf)\<rparr>;
                                 entry1 = AList.update ''extracted''
                                   (entry_of_extracted extracted_data) entry;
                                 next_node = snd (hd conns);
                                 entry2 = AList.update ''next_node'' (EStr next_node) entry1 in
                             (Continue,
                              s1\<lparr>self := slf1, traversal := traversal s1 @ [entry2],
                                 current_node_id := next_node\<rparr>, w')))
                   | None \<Rightarrow>
                       (let next_node = snd (hd conns);
                            entry1 = AList.update ''next_node'' (EStr next_node) entry in
                        (Continue,
                         s1\<lparr>traversal := traversal s1 @ [entry1],
                            current_node_id := next_node\<rparr>, w))))))"

subsection \<open>\<^verbatim>\<open>run\<close>\<close>

text \<open>
  \<^verbatim>\<open>while True\<close>: the loop may not return, which is the value \<open>None\<close>. A result is
  the returned pair or the exception, with the final variables and collaborator state.
\<close>

partial_function (option) run_loop ::
  "'w llm \<Rightarrow> loop_state \<Rightarrow> 'w
     \<Rightarrow> ((exn + pyobj \<times> (string \<times> pyobj) list) \<times> loop_state \<times> 'w) option" where
  "run_loop env s w =
     (case step env s w of
        (Continue, s', w') \<Rightarrow> run_loop env s' w'
      | (Return result ex, s', w') \<Rightarrow> Some (Inr (result, ex), s', w')
      | (Raise e, s', w') \<Rightarrow> Some (Inl e, s', w'))"

text \<open>
  \<^verbatim>\<open>run(input_string)\<close> starts at the start node with \<^verbatim>\<open>visited_nodes\<close>, \<^verbatim>\<open>decisions\<close>
  and \<^verbatim>\<open>traversal\<close> emptied.
\<close>

definition run ::
  "'w llm \<Rightarrow> engine \<Rightarrow> string \<Rightarrow> 'w
     \<Rightarrow> ((exn + pyobj \<times> (string \<times> pyobj) list) \<times> loop_state \<times> 'w) option" where
  "run env slf input_string w =
     run_loop env
       \<lparr>self = slf\<lparr>visited_nodes := [], decisions := []\<rparr>,
        current_node_id = start_node slf, initial_input = input_string, traversal = []\<rparr> w"

declare run_loop.simps [code]

text \<open>
  The variables of \<^verbatim>\<open>run\<close> after \<open>k\<close> passes of the loop that went on to a next node,
  from given variables; \<open>None\<close> when one of the passes returned or raised.
\<close>

fun after_visits :: "'w llm \<Rightarrow> nat \<Rightarrow> loop_state \<Rightarrow> 'w \<Rightarrow> (loop_state \<times> 'w) option" where
  "after_visits env 0 s w = Some (s, w)"
| "after_visits env (Suc k) s w =
     (case step env s w of
        (Continue, s', w') \<Rightarrow> after_visits env k s' w'
      | (Return result ex, s', w') \<Rightarrow> None
      | (Raise e, s', w') \<Rightarrow> None)"

subsection \<open>A scripted collaborator and sample flowcharts\<close>

text \<open>
  Python's \<^verbatim>\<open>str\<close> of a dictionary, which writes every key and value with \<^verbatim>\<open>repr\<close>. A
  character of the model stands for the code point of its number, so the strings are those
  over the code points below 256. \<^verbatim>\<open>repr\<close> of a string takes double quotes when the string
  holds an apostrophe and no double quote, and single quotes otherwise; it escapes the
  quote it took and the backslash, writes tab, newline and carriage return as
  \<^verbatim>\<open>\t\<close>, \<^verbatim>\<open>\n\<close>, \<^verbatim>\<open>\r\<close>, and every other code point that is not printable (below 32,
  from 127 to 160, and 173) as \<^verbatim>\<open>\xhh\<close>.
\<close>

definition hex_digit :: "nat \<Rightarrow> char" where
  "hex_digit n = ''0123456789abcdef'' ! n"

definition repr_char :: "char \<Rightarrow> char \<Rightarrow> string" where
  "repr_char quote c =
     (let n = (of_char c :: nat) in
      if c = quote \<or> c = CHR 0x5C then [CHR 0x5C, c]
      else if c = CHR 0x09 then [CHR 0x5C, CHR ''t'']
      else if c = CHR 0x0A then [CHR 0x5C, CHR ''n'']
      else if c = CHR 0x0D then [CHR 0x5C, CHR ''r'']
      else if n < 32 \<or> (127 \<le> n \<and> n \<le> 160) \<or> n = 173
        then [CHR 0x5C, CHR ''x'', hex_digit (n div 16), hex_digit (n mod 16)]
      else [c])"

definition repr_str :: "string \<Rightarrow> string" where
  "repr_str v =
     (let quote = (if CHR 0x27 \<in> set v \<and> CHR 0x22 \<notin> set v then CHR 0x22 else CHR 0x27)
      in [quote] @ concat (map (repr_char quote) v) @ [quote])"

fun str_of_nat :: "nat \<Rightarrow> string" where
  "str_of_nat n =
     (if n < 10 then [char_of (48 + n)] else str_of_nat (n div 10) @ [char_of (48 + n mod 10)])"

fun join :: "string \<Rightarrow> string list \<Rightarrow> string" where
  "join sep [] = []"
| "join sep [x] = x"
| "join sep (x # y # ys) = x @ sep @ join sep (y # ys)"

fun py_repr :: "fval \<Rightarrow> string" where
  "py_repr FNone = ''None''"
| "py_repr (FStr v) = repr_str v"
| "py_repr (FInt i) = (if i < 0 then ''-'' @ str_of_nat (nat (- i)) else str_of_nat (nat i))"
| "py_repr (FList vs) = ''['' @ join '', '' (map py_repr vs) @ '']''"
| "py_repr (FDict kvs) =
     ''{'' @ join '', '' (map (\<lambda>(k, v). repr_str k @ '': '' @ py_repr v) kvs) @ ''}''"

text \<open>
  A test double for the language model: its state is the list of answers still to give
  and the list of prompts received so far; each call gives the next answer and records its
  prompt, and raises when no answer is left.
\<close>

definition answer :: "string \<Rightarrow> pyobj list \<times> string list \<Rightarrow> (exn + pyobj) \<times> pyobj list \<times> string list" where
  "answer prompt w =
     (case fst w of
        [] \<Rightarrow> (Inl (LLMError ''no answer''), [], snd w @ [prompt])
      | r # rs \<Rightarrow> (Inr r, rs, snd w @ [prompt]))"

definition scripted :: "(pyobj list \<times> string list) llm" where
  "scripted =
     \<lparr>ask_schema = (\<lambda>prompt system pymodel model. answer prompt),
      ask_text = (\<lambda>prompt system model temp. answer prompt),
      LLM_MODEL = ''model'',
      dict_str = (\<lambda>kvs. py_repr (FDict kvs))\<rparr>"

text \<open>A node that declares a text and connections only.\<close>

definition text_node :: "string \<Rightarrow> (string \<times> string) list \<Rightarrow> node" where
  "text_node t c =
     \<lparr>ntext = Some t, connections = Some c, schema = None, temperature = None,
      ntype = None, iterator = None, collection = None\<rparr>"

text \<open>The decision of the collaborator as an instance of \<^verbatim>\<open>DecisionSchema\<close>.\<close>

definition decision_result :: "string \<Rightarrow> string \<Rightarrow> pyobj" where
  "decision_result why label =
     PyModel ''DecisionSchema'' [(''reasoning'', FStr why), (''decision'', FStr label)]"

text \<open>
  The flowchart of the routing test: \<^verbatim>\<open>A = Decision{"Yes": "B", "No": "C"}\<close>, with \<open>B\<close>
  and \<open>C\<close> terminal.
\<close>

definition routing_flowchart :: flowchart where
  "routing_flowchart =
     [(''A'', text_node ''Is it so?'' [(''Yes'', ''B''), (''No'', ''C'')]),
      (''B'', text_node ''Say yes.'' []),
      (''C'', text_node ''Say no.'' [])]"

text \<open>A flowchart whose start node leads into a cycle of two single-connection nodes.\<close>

definition cyclic_flowchart :: flowchart where
  "cyclic_flowchart =
     [(''S'', text_node ''Start.'' [(''default'', ''A'')]),
      (''A'', text_node ''First.'' [(''default'', ''B'')]),
      (''B'', text_node ''Second.'' [(''default'', ''A'')])]"

text \<open>Two nodes that no connection leads to.\<close>

definition two_start_flowchart :: flowchart where
  "two_start_flowchart = [(''A'', text_node ''One.'' []), (''B'', text_node ''Two.'' [])]"

text \<open>
  A start node that declares a schema and two connections, one of them to an id that is
  not declared.
\<close>

definition unchecked_flowchart :: flowchart where
  "unchecked_flowchart =
     [(''A'', (text_node ''Pick.'' [(''Yes'', ''B''), (''No'', ''Nowhere'')])
                \<lparr>schema := Some ''PlanNameSchema''\<rparr>),
      (''B'', text_node ''Done.'' [])]"

text \<open>
  A decision that leads to an extraction or straight to a terminal node; the engine for
  it, as the constructor builds it.
\<close>

definition extraction_flowchart :: flowchart where
  "extraction_flowchart =
     [(''D'', text_node ''Anything new?'' [(''Yes'', ''E''), (''No'', ''T'')]),
      (''E'', (text_node ''Extract it.'' [(''default'', ''U'')])
                \<lparr>schema := Some ''PlanNameSchema''\<rparr>),
      (''T'', text_node ''Talk.'' []),
      (''U'', text_node ''Tell.'' [])]"

definition fresh_engine :: "flowchart \<Rightarrow> string \<Rightarrow> string \<Rightarrow> engine" where
  "fresh_engine fc sp start =
     \<lparr>flowchart = fc, system_prompt = sp, start_node = start, extracted = [],
      visited_nodes = [], decisions = [], reasoning = []\<rparr>"

text \<open>
  Two extractions in a row, with the schemas \<^verbatim>\<open>PlanAnalysisSchema\<close> and
  \<^verbatim>\<open>AllPlanNamesSchema\<close> of week_analyser.py, before a terminal node.
\<close>

definition two_extractions_flowchart :: flowchart where
  "two_extractions_flowchart =
     [(''Analyse'', (text_node ''Analyse the plan.'' [(''default'', ''Names'')])
                      \<lparr>schema := Some ''PlanAnalysisSchema''\<rparr>),
      (''Names'', (text_node ''Extract all plan names.'' [(''default'', ''Tell'')])
                    \<lparr>schema := Some ''AllPlanNamesSchema''\<rparr>),
      (''Tell'', text_node ''Tell.'' [])]"

subsection \<open>The loop nodes of week_analyser.py\<close>

text \<open>
  The two loop nodes that \<^verbatim>\<open>every_message_flowchart\<close> of week_analyser.py declares,
  \<^verbatim>\<open>StartPlanLoop\<close> and \<^verbatim>\<open>NextPlan\<close>; neither has a text.
\<close>

definition week_analyser_loop_nodes :: flowchart where
  "week_analyser_loop_nodes =
     [(''StartPlanLoop'',
       \<lparr>ntext = None, connections = Some [(''default'', ''CheckPlanDiscussed'')],
        schema = None, temperature = None, ntype = Some ''loop_start'',
        iterator = Some ''current_plan'', collection = Some ''plan_names''\<rparr>),
      (''NextPlan'',
       \<lparr>ntext = None,
        connections = Some [(''HasMore'', ''StartPlanLoop''), (''Complete'', ''Conclude'')],
        schema = None, temperature = None, ntype = Some ''loop_continue'',
        iterator = None, collection = None\<rparr>)]"

text \<open>
  week_analyser.py takes its engine from ai/assistant/flowchart_framework.py, which is not
  among the sources, and the engine of flowchart.py knows no loop node. The dispatch of a
  LoopStart node is therefore taken from sections 3, 4.3 and 7 of the specification.
\<close>

text \<open>
  Modelled from the spec: the error of the missing loop engine, ``\<^verbatim>\<open>ConfigurationError\<close>
  (fatal, non-retryable): malformed graph, missing or non-sequence loop collection''.
\<close>

datatype spec_error = ConfigurationError string

text \<open>
  Modelled from the spec: a scope of the \<^verbatim>\<open>loopStack\<close> that the missing loop engine
  keeps in its TraversalContext, \<^verbatim>\<open>{iteratorName, collection, index}\<close>, the collection an
  ordered sequence of strings.
\<close>

record loop_scope =
  iteratorName :: string
  loop_collection :: "string list"
  index :: nat

text \<open>
  Modelled from the spec: the TraceEntry of the missing loop engine, reduced to the node id
  and the next node id, which are the fields a loop node determines.
\<close>

record trace_entry =
  entry_node :: string
  entry_next :: string

text \<open>
  Modelled from the spec: the TraversalContext of the missing loop engine, reduced to what
  a loop node reads and writes (\<^verbatim>\<open>extracted\<close>, \<^verbatim>\<open>loopStack\<close>), with the current node of
  the state \<^verbatim>\<open>Running(currentNodeId)\<close> and the TraceLog.
\<close>

record traversal_context =
  currentNodeId :: string
  extractedByNodeId :: "(string \<times> pyobj) list"
  loopStack :: "loop_scope list"
  traceLog :: "trace_entry list"

text \<open>
  Modelled from the spec: the reading of an extracted field as the ``ordered sequence of
  string'' that a loop scope of the missing engine holds; a list with another element is
  not such a sequence.
\<close>

fun strings_of :: "fval list \<Rightarrow> string list option" where
  "strings_of [] = Some []"
| "strings_of (FStr v # vs) = map_option ((#) v) (strings_of vs)"
| "strings_of (_ # vs) = None"

text \<open>
  Modelled from the spec: the collection of a LoopStart node in the missing loop engine,
  ``resolve \<^verbatim>\<open>collection\<close> = the sequence previously extracted
  under \<^verbatim>\<open>collectionFieldName\<close> from a prior node's structured result; fails with
  \<^verbatim>\<open>ConfigurationError\<close> if missing or not a sequence''. The structured results are
  searched in the order of extraction.
\<close>

definition resolve_collection :: "(string \<times> pyobj) list \<Rightarrow> string \<Rightarrow> spec_error + string list" where
  "resolve_collection ex field =
     (case List.map_filter
             (\<lambda>(node_id, data). case data of PyStr _ \<Rightarrow> None | PyModel _ fs \<Rightarrow> map_of fs field)
             ex of
        [] \<Rightarrow> Inl (ConfigurationError ''missing collection'')
      | FList vs # _ \<Rightarrow>
          (case strings_of vs of
             None \<Rightarrow> Inl (ConfigurationError ''collection is not a sequence'')
           | Some items \<Rightarrow> Inr items)
      | _ # _ \<Rightarrow> Inl (ConfigurationError ''collection is not a sequence''))"

text \<open>
  Modelled from the spec: the \<^verbatim>\<open>"Complete"\<close> target of the LoopContinue node that the
  missing loop engine pairs with a LoopStart node. The spec leaves the pairing implicit, so
  it is a parameter.
\<close>

definition complete_target :: "(string \<Rightarrow> string option) \<Rightarrow> flowchart \<Rightarrow> string \<Rightarrow> string option" where
  "complete_target paired fc loop_start_id =
     (case paired loop_start_id of
        None \<Rightarrow> None
      | Some loop_continue_id \<Rightarrow>
          (case map_of fc loop_continue_id of
             None \<Rightarrow> None
           | Some n \<Rightarrow> map_of (get_connections n) ''Complete''))"

text \<open>
  Modelled from the spec: the end of a visit in the missing loop engine, ``append trace
  entry; advance''.
\<close>

definition advance :: "traversal_context \<Rightarrow> string \<Rightarrow> traversal_context" where
  "advance c target =
     c\<lparr>traceLog := traceLog c @ [\<lparr>entry_node = currentNodeId c, entry_next = target\<rparr>],
       currentNodeId := target\<rparr>"

text \<open>
  Modelled from the spec: the dispatch of the missing loop engine at the first entry of a
  LoopStart node. ``Resolve \<^verbatim>\<open>collection\<close>.
  Push \<^verbatim>\<open>{iteratorName, collection, index: 0}\<close>. If \<^verbatim>\<open>collection\<close> is empty, skip directly
  to the paired LoopContinue's "Complete" target without any model call. Otherwise bind
  \<^verbatim>\<open>iteratorName\<close> to \<^verbatim>\<open>collection[0]\<close> and advance to the sole connection target.''
  The binding of the iterator is the element at \<^verbatim>\<open>index\<close> of the innermost scope. The
  state \<open>'w\<close> of the collaborator is handed through: the dispatch has no access to the model.
\<close>

definition loop_start ::
  "(string \<Rightarrow> string option) \<Rightarrow> flowchart \<Rightarrow> traversal_context \<Rightarrow> 'w
     \<Rightarrow> (spec_error + traversal_context) \<times> 'w" where
  "loop_start paired fc c w =
     (case map_of fc (currentNodeId c) of
        None \<Rightarrow> (Inl (ConfigurationError ''undeclared node''), w)
      | Some n \<Rightarrow>
          (case (iterator n, collection n) of
             (Some it, Some field) \<Rightarrow>
               (case resolve_collection (extractedByNodeId c) field of
                  Inl e \<Rightarrow> (Inl e, w)
                | Inr items \<Rightarrow>
                    (let c1 = c\<lparr>loopStack :=
                           \<lparr>iteratorName = it, loop_collection = items, index = 0\<rparr>
                             # loopStack c\<rparr> in
                     if items = [] then
                       (case complete_target paired fc (currentNodeId c) of
                          None \<Rightarrow> (Inl (ConfigurationError ''no Complete target''), w)
                        | Some target \<Rightarrow> (Inr (advance c1 target), w))
                     else
                       (case get_connections n of
                          [(label, target)] \<Rightarrow> (Inr (advance c1 target), w)
                        | _ \<Rightarrow> (Inl (ConfigurationError ''no sole connection''), w))))
           | _ \<Rightarrow> (Inl (ConfigurationError ''no iterator or collection''), w)))"

subsection \<open>The templates of week_analyser.py\<close>


text \<open>
  The tokens are rendered by the engine of ai/assistant/flowchart_framework.py, which is
  not among the sources; the engine of flowchart.py has no loop bindings and its own
  flowcharts hold no token. The rendering is therefore taken from section 4.2 of the
  specification.
\<close>








section \<open>Properties of one visit\<close>

lemma llm_function_decision:
  assumes "map_of (flowchart slf) cur = Some nd"
    and "options \<noteq> []"
    and "ask_schema env (full_prompt p inp) (system_prompt slf) (DecisionSchema options)
           (LLM_MODEL env) w = (Inr result, w')"
    and "getattr_str result ''decision'' = Inr label"
    and "getattr_str result ''reasoning'' = Inr why"
  shows "llm_function env slf p inp cur options None w =
           (Inr (PyStr label),
            slf\<lparr>decisions := AList.update cur label (decisions slf),
                reasoning := AList.update cur why (reasoning slf)\<rparr>, w')"
  using assms by (simp add: llm_function_def Let_def)

lemma decision_step:
  assumes "map_of (flowchart (self s)) (current_node_id s) = Some n"
    and "ntext n = Some txt"
    and "1 < length (get_connections n)"
    and "ask_schema env
           (full_prompt (node_prompt env txt (extracted (self s))) (initial_input s))
           (system_prompt (self s)) (DecisionSchema (map fst (get_connections n)))
           (LLM_MODEL env) w = (Inr result, w')"
    and "getattr_str result ''decision'' = Inr label"
    and "getattr_str result ''reasoning'' = Inr why"
  shows "\<exists>s'. step env s w = (Continue, s', w') \<and>
           current_node_id s' = next_of_decision (get_connections n) label \<and>
           extracted (self s') = extracted (self s) \<and>
           flowchart (self s') = flowchart (self s)"
proof -
  let ?slf = "(self s)\<lparr>visited_nodes := visited_nodes (self s) @ [current_node_id s]\<rparr>"
  have ne: "get_connections n \<noteq> []" "map fst (get_connections n) \<noteq> []"
    using assms(3) by auto
  have "llm_function env ?slf (node_prompt env txt (extracted (self s))) (initial_input s)
          (current_node_id s) (map fst (get_connections n)) None w =
        (Inr (PyStr label),
         ?slf\<lparr>decisions := AList.update (current_node_id s) label (decisions ?slf),
              reasoning := AList.update (current_node_id s) why (reasoning ?slf)\<rparr>, w')"
    by (rule llm_function_decision[where nd = n and result = result])
       (use assms ne in simp_all)
  then show ?thesis
    using assms(1,2,3) ne by (simp add: step_def Let_def)
qed

lemma terminal_step:
  assumes "map_of (flowchart (self s)) (current_node_id s) = Some n"
    and "ntext n = Some txt"
    and "get_connections n = []"
  shows "step env s w =
     (let prompt = full_prompt (node_prompt env txt (extracted (self s))) (initial_input s);
          s1 = s\<lparr>self := (self s)\<lparr>visited_nodes :=
                  visited_nodes (self s) @ [current_node_id s]\<rparr>\<rparr> in
      case (case schema n of
              Some sc \<Rightarrow>
                ask_schema env prompt (system_prompt (self s)) (Schema sc) (LLM_MODEL env) w
            | None \<Rightarrow>
                ask_text env prompt (system_prompt (self s)) (LLM_MODEL env)
                  (case temperature n of None \<Rightarrow> 7 / 10 | Some t \<Rightarrow> t) w) of
        (Inl e, w') \<Rightarrow> (Raise e, s1, w')
      | (Inr result, w') \<Rightarrow>
          (Return result (extracted (self s)),
           s1\<lparr>traversal := traversal s @
                 [[(''node'', EStr (current_node_id s)), (''text'', EStr txt),
                   (''options'', EOptions [])]]\<rparr>, w'))"
  using assms
  by (simp add: step_def llm_function_def Let_def split: option.splits prod.splits sum.splits)

lemma extraction_step:
  assumes "map_of (flowchart (self s)) (current_node_id s) = Some n"
    and "ntext n = Some txt"
    and "get_connections n = [(label, target)]"
    and "schema n = Some sc"
    and "ask_schema env
           (full_prompt (node_prompt env txt (extracted (self s))) (initial_input s))
           (system_prompt (self s)) (Schema sc) (LLM_MODEL env) w = (Inr v, w')"
  shows "step env s w =
     (Continue,
      s\<lparr>self := (self s)\<lparr>visited_nodes := visited_nodes (self s) @ [current_node_id s],
                         extracted := AList.update (current_node_id s) v (extracted (self s))\<rparr>,
        traversal := traversal s @
          [[(''node'', EStr (current_node_id s)), (''text'', EStr txt),
            (''options'', EOptions [label]), (''reasoning'', ENone), (''decision'', ENone),
            (''next_node'', EStr target), (''extracted'', entry_of_extracted v)]],
        current_node_id := target\<rparr>, w')"
  using assms by (simp add: step_def llm_function_def Let_def)

lemma llm_function_flowchart:
  "llm_function env slf p i c opts sch w = (r, slf', w') \<Longrightarrow> flowchart slf' = flowchart slf"
  by (auto simp add: llm_function_def Let_def
      split: option.splits prod.splits sum.splits if_splits)

lemma next_of_decision_in:
  "conns \<noteq> [] \<Longrightarrow> next_of_decision conns d \<in> snd ` set conns"
  by (cases conns) (auto simp add: next_of_decision_def split: option.splits dest: map_of_SomeD
      intro: rev_image_eqI)

lemma step_cases:
  assumes "step env s w = (out, s', w')"
  shows "flowchart (self s') = flowchart (self s) \<and>
         (case out of
            Continue \<Rightarrow>
              (\<exists>n. map_of (flowchart (self s)) (current_node_id s) = Some n \<and>
                   current_node_id s' \<in> snd ` set (get_connections n))
          | Return r ex \<Rightarrow>
              (\<exists>n. map_of (flowchart (self s)) (current_node_id s) = Some n \<and>
                   get_connections n = [] \<and> current_node_id s' = current_node_id s)
          | Raise e \<Rightarrow> True)"
proof (cases "map_of (flowchart (self s)) (current_node_id s)")
  case None
  with assms show ?thesis by (auto simp add: step_def)
next
  case (Some n)
  show ?thesis
  proof (cases "ntext n")
    case None
    with Some assms show ?thesis by (auto simp add: step_def Let_def)
  next
    case tx: (Some t)
    consider (nil) "get_connections n = []"
      | (dec) "1 < length (get_connections n)"
      | (one) "length (get_connections n) = 1"
      by (cases "get_connections n") (auto simp add: less_Suc_eq_0_disj)
    then show ?thesis
    proof cases
      case nil
      with nil Some tx assms show ?thesis
        by (auto simp add: step_def Let_def split: prod.splits sum.splits
            dest: llm_function_flowchart)
    next
      case dec
      then have ne: "get_connections n \<noteq> []" by auto
      with dec Some tx assms next_of_decision_in[OF ne] show ?thesis
        by (auto simp add: step_def Let_def split: prod.splits sum.splits pyobj.splits
            dest: llm_function_flowchart)
    next
      case one
      then have ne: "get_connections n \<noteq> []" by auto
      then have "snd (hd (get_connections n)) \<in> snd ` set (get_connections n)" by simp
      with one ne Some tx assms show ?thesis
        by (auto simp add: step_def Let_def split: prod.splits sum.splits option.splits
            dest: llm_function_flowchart)
    qed
  qed
qed

section \<open>The constructor and the rendering of the prompt\<close>

lemma find_first:
  "find P xs = Some x \<Longrightarrow> \<exists>pre post. xs = pre @ x # post \<and> P x \<and> (\<forall>y \<in> set pre. \<not> P y)"
proof (induction xs)
  case Nil
  then show ?case by simp
next
  case (Cons a xs)
  show ?case
  proof (cases "P a")
    case True
    with Cons.prems have "a = x" by simp
    with True have "a # xs = [] @ x # xs \<and> P x \<and> (\<forall>y \<in> set []. \<not> P y)" by simp
    then show ?thesis by blast
  next
    case False
    with Cons obtain pre post where "xs = pre @ x # post" "P x" "\<forall>y \<in> set pre. \<not> P y"
      by auto
    with False have "a # xs = (a # pre) @ x # post \<and> P x \<and> (\<forall>y \<in> set (a # pre). \<not> P y)"
      by simp
    then show ?thesis by blast
  qed
qed

lemma find_unique:
  assumes "i \<in> set xs" and "P i" and "\<forall>j \<in> set xs. P j \<longrightarrow> j = i"
  shows "find P xs = Some i"
proof (cases "find P xs")
  case None
  with assms(1,2) show ?thesis by (auto simp add: find_None_iff)
next
  case (Some x)
  from find_first[OF Some] have "x \<in> set xs" "P x" by auto
  with assms(3) Some show ?thesis by auto
qed

lemma node_prompt_concat:
  "node_prompt env acc ex = acc @ concat (map (\<lambda>(node_id, data). context_line env data) ex)"
  by (induction ex arbitrary: acc) auto

lemma context_line_in_prompt:
  assumes "map_of ex node_id = Some v"
  shows "sublist (context_line env v) (node_prompt env acc ex)"
proof -
  from assms have "(node_id, v) \<in> set ex" by (rule map_of_SomeD)
  then obtain pre post where "ex = pre @ (node_id, v) # post"
    by (auto simp add: in_set_conv_decomp)
  then have "node_prompt env acc ex =
      (acc @ concat (map (\<lambda>(node_id, data). context_line env data) pre)) @ context_line env v
        @ concat (map (\<lambda>(node_id, data). context_line env data) post)"
    by (simp add: node_prompt_concat)
  then show ?thesis by (metis sublist_appendI)
qed

lemma update_fresh:
  "k \<notin> fst ` set al \<Longrightarrow> AList.update k v al = al @ [(k, v)]"
  by (induction al) auto

section \<open>Termination of the loop\<close>

lemma run_loop_terminates:
  fixes rank :: "string \<Rightarrow> nat"
  assumes "\<forall>(i, n) \<in> set (flowchart (self s)). \<forall>t \<in> snd ` set (get_connections n). rank t < rank i"
  shows "\<exists>out s' w'. run_loop env s w = Some (out, s', w') \<and>
           (\<forall>r ex. out = Inr (r, ex) \<longrightarrow>
              (\<exists>n. map_of (flowchart (self s')) (current_node_id s') = Some n \<and>
                   get_connections n = []))"
  using assms
proof (induction "rank (current_node_id s)" arbitrary: s w rule: less_induct)
  case less
  obtain out s1 w1 where st: "step env s w = (out, s1, w1)"
    by (cases "step env s w") auto
  note sc = step_cases[OF st]
  show ?case
  proof (cases out)
    case Continue
    with sc obtain n where n: "map_of (flowchart (self s)) (current_node_id s) = Some n"
      and nx: "current_node_id s1 \<in> snd ` set (get_connections n)"
      by auto
    from n have "(current_node_id s, n) \<in> set (flowchart (self s))"
      by (rule map_of_SomeD)
    with less.prems nx have lt: "rank (current_node_id s1) < rank (current_node_id s)"
      by blast
    from sc less.prems have acyc: "\<forall>(i, n) \<in> set (flowchart (self s1)).
        \<forall>t \<in> snd ` set (get_connections n). rank t < rank i"
      by simp
    from less.hyps[OF lt acyc, of w1] obtain out' s' w' where
      r: "run_loop env s1 w1 = Some (out', s', w')" and
      t: "\<forall>r ex. out' = Inr (r, ex) \<longrightarrow>
              (\<exists>n. map_of (flowchart (self s')) (current_node_id s') = Some n \<and>
                   get_connections n = [])"
      by blast
    have "run_loop env s w = run_loop env s1 w1"
      by (subst run_loop.simps) (simp add: st Continue)
    with r t show ?thesis by simp
  next
    case (Return r ex)
    have "run_loop env s w = Some (Inr (r, ex), s1, w1)"
      by (subst run_loop.simps) (simp add: st Return)
    moreover from sc Return
    have "\<exists>n. map_of (flowchart (self s1)) (current_node_id s1) = Some n \<and> get_connections n = []"
      by auto
    ultimately show ?thesis by simp
  next
    case (Raise e)
    have "run_loop env s w = Some (Inl e, s1, w1)"
      by (subst run_loop.simps) (simp add: st Raise)
    then show ?thesis by simp
  qed
qed

lemma run_loop_flowchart:
  assumes "run_loop env s w = Some (out, s', w')"
  shows "flowchart (self s') = flowchart (self s)"
  using assms
proof (induction env s w "(out, s', w')" rule: run_loop.raw_induct[rotated 1, consumes 1])
  case (1 f env s w)
  obtain o1 s1 w1 where st: "step env s w = (o1, s1, w1)"
    by (cases "step env s w") auto
  from step_cases[OF st] have fc: "flowchart (self s1) = flowchart (self s)" by simp
  show ?case
  proof (cases o1)
    case Continue
    with "1"(2) st have "f env s1 w1 = Some (out, s', w')" by simp
    from "1"(1)[OF this] fc show ?thesis by simp
  next
    case (Return r ex)
    with "1"(2) st fc show ?thesis by auto
  next
    case (Raise e)
    with "1"(2) st fc show ?thesis by auto
  qed
qed

lemma cyclic_step:
  assumes "flowchart (self s) = cyclic_flowchart"
    and "current_node_id s \<in> {''S'', ''A'', ''B''}"
  shows "\<exists>s'. step env s w = (Continue, s', w) \<and> flowchart (self s') = cyclic_flowchart \<and>
           current_node_id s' \<in> {''S'', ''A'', ''B''}"
proof -
  consider "current_node_id s = ''S''" | "current_node_id s = ''A''" | "current_node_id s = ''B''"
    using assms(2) by auto
  then show ?thesis
    using assms(1)
    by cases
      (simp_all add: step_def cyclic_flowchart_def text_node_def get_connections_def Let_def)
qed

lemma cyclic_never_returns:
  assumes "run_loop env s w = Some y"
  shows "\<not> (flowchart (self s) = cyclic_flowchart \<and> current_node_id s \<in> {''S'', ''A'', ''B''})"
  using assms
proof (induction env s w y rule: run_loop.raw_induct[rotated 1, consumes 1])
  case (1 f env s w y)
  show ?case
  proof
    assume inv: "flowchart (self s) = cyclic_flowchart \<and> current_node_id s \<in> {''S'', ''A'', ''B''}"
    then have a: "flowchart (self s) = cyclic_flowchart"
      and b: "current_node_id s \<in> {''S'', ''A'', ''B''}"
      by simp_all
    from cyclic_step[OF a b, of env w] obtain s' where
      st: "step env s w = (Continue, s', w)" and
      inv': "flowchart (self s') = cyclic_flowchart \<and> current_node_id s' \<in> {''S'', ''A'', ''B''}"
      by (elim exE conjE) (rule that, assumption, rule conjI)
    from "1"(2) st have "f env s' w = Some y" by simp
    from "1"(1)[OF this] inv' show False by simp
  qed
qed

lemma after_visits_run_loop:
  "after_visits env k s w = Some (s', w') \<Longrightarrow> run_loop env s w = run_loop env s' w'"
proof (induction k arbitrary: s w)
  case 0
  then show ?case by simp
next
  case (Suc k)
  obtain out s1 w1 where st: "step env s w = (out, s1, w1)"
    by (cases "step env s w") auto
  with Suc.prems have c: "out = Continue" and a: "after_visits env k s1 w1 = Some (s', w')"
    by (cases out; simp)+
  have "run_loop env s w = run_loop env s1 w1"
    by (subst run_loop.simps) (simp add: st c)
  with Suc.IH[OF a] show ?case by simp
qed

section \<open>The rendering of templates\<close>






section \<open>The claims\<close>

subsection \<open>Decision routing\<close>

text \<open>
  C1. At a node with more than one connection, once the collaborator has returned a label,
  the engine advances to the target that the connections give for the label, and to the
  target of the first declared connection when the label is not declared. In the flowchart
  \<^verbatim>\<open>A = Decision{"Yes": "B", "No": "C"}\<close> with a collaborator that answers \<^verbatim>\<open>Yes\<close>, the
  run visits \<open>A\<close> then \<open>B\<close> and the collaborator receives the prompts of \<open>A\<close> and \<open>B\<close>
  only, never the one of \<open>C\<close>.
\<close>

theorem decision_routing:
  assumes "map_of (flowchart (self s)) (current_node_id s) = Some n"
    and "ntext n = Some txt"
    and "1 < length (get_connections n)"
    and "ask_schema env
           (full_prompt (node_prompt env txt (extracted (self s))) (initial_input s))
           (system_prompt (self s)) (DecisionSchema (map fst (get_connections n)))
           (LLM_MODEL env) w = (Inr result, w')"
    and "getattr_str result ''decision'' = Inr label"
    and "getattr_str result ''reasoning'' = Inr why"
  shows "(\<exists>s'. step env s w = (Continue, s', w') \<and>
            current_node_id s' =
              (case map_of (get_connections n) label of
                 Some target \<Rightarrow> target
               | None \<Rightarrow> snd (hd (get_connections n)))) \<and>
         init routing_flowchart ''system'' =
           Inr (fresh_engine routing_flowchart ''system'' ''A'') \<and>
         map_option (\<lambda>(out, s', w'). (out, visited_nodes (self s'), w'))
           (run scripted (fresh_engine routing_flowchart ''system'' ''A'') ''input''
              ([decision_result ''because'' ''Yes'', PyStr ''Fine.''], [])) =
         Some (Inr (PyStr ''Fine.'', []), [''A'', ''B''],
               [], [full_prompt ''Is it so?'' ''input'', full_prompt ''Say yes.'' ''input''])"
proof (intro conjI)
  from decision_step[OF assms]
  show "\<exists>s'. step env s w = (Continue, s', w') \<and>
           current_node_id s' =
             (case map_of (get_connections n) label of
                Some target \<Rightarrow> target
              | None \<Rightarrow> snd (hd (get_connections n)))"
    by (auto simp add: next_of_decision_def)
  show "init routing_flowchart ''system'' = Inr (fresh_engine routing_flowchart ''system'' ''A'')"
    by code_simp
  show "map_option (\<lambda>(out, s', w'). (out, visited_nodes (self s'), w'))
           (run scripted (fresh_engine routing_flowchart ''system'' ''A'') ''input''
              ([decision_result ''because'' ''Yes'', PyStr ''Fine.''], [])) =
         Some (Inr (PyStr ''Fine.'', []), [''A'', ''B''],
               [], [full_prompt ''Is it so?'' ''input'', full_prompt ''Say yes.'' ''input''])"
    by code_simp
qed

theorem decision_routing_witness:
  "(\<exists>s'. step scripted
       \<lparr>self = fresh_engine routing_flowchart ''system'' ''A'', current_node_id = ''A'',
        initial_input = ''input'', traversal = []\<rparr>
       ([decision_result ''because'' ''Yes'', PyStr ''Fine.''], []) =
         (Continue, s',
          [PyStr ''Fine.''], [full_prompt ''Is it so?'' ''input'']) \<and>
       current_node_id s' = ''B'') \<and>
   (\<exists>s'. step scripted
       \<lparr>self = fresh_engine routing_flowchart ''system'' ''A'', current_node_id = ''A'',
        initial_input = ''input'', traversal = []\<rparr>
       ([decision_result ''because'' ''Perhaps'', PyStr ''Fine.''], []) =
         (Continue, s',
          [PyStr ''Fine.''], [full_prompt ''Is it so?'' ''input'']) \<and>
       current_node_id s' = ''B'')"
proof -
  let ?s = "\<lparr>self = fresh_engine routing_flowchart ''system'' ''A'', current_node_id = ''A'',
        initial_input = ''input'', traversal = []\<rparr>"
  let ?n = "text_node ''Is it so?'' [(''Yes'', ''B''), (''No'', ''C'')]"
  have 1: "map_of (flowchart (self ?s)) (current_node_id ?s) = Some ?n"
    by (simp add: fresh_engine_def routing_flowchart_def)
  have 2: "ntext ?n = Some ''Is it so?''" by (simp add: text_node_def)
  have 3: "1 < length (get_connections ?n)" by (simp add: text_node_def get_connections_def)
  have 4: "ask_schema scripted
           (full_prompt (node_prompt scripted ''Is it so?'' (extracted (self ?s))) (initial_input ?s))
           (system_prompt (self ?s)) (DecisionSchema (map fst (get_connections ?n)))
           (LLM_MODEL scripted) ([decision_result ''because'' l, PyStr ''Fine.''], []) =
          (Inr (decision_result ''because'' l), [PyStr ''Fine.''], [full_prompt ''Is it so?'' ''input''])" for l
    by (simp add: scripted_def answer_def fresh_engine_def)
  have 5: "getattr_str (decision_result ''because'' l) ''decision'' = Inr l" for l
    by (simp add: getattr_str_def decision_result_def)
  have 6: "getattr_str (decision_result ''because'' l) ''reasoning'' = Inr ''because''" for l
    by (simp add: getattr_str_def decision_result_def)
  show ?thesis
    using decision_routing[OF 1 2 3 4 5 6, of "''Yes''"]
          decision_routing[OF 1 2 3 4 5 6, of "''Perhaps''"]
    by (simp add: text_node_def get_connections_def)
qed

subsection \<open>Termination\<close>

text \<open>
  C2, as the claim states it, fails: the engine counts no visits. On a flowchart whose
  start node leads into a cycle of single-connection nodes the constructor succeeds and
  \<^verbatim>\<open>run\<close> neither returns nor raises.
\<close>

theorem run_can_loop_forever:
  "init cyclic_flowchart ''system'' = Inr (fresh_engine cyclic_flowchart ''system'' ''S'') \<and>
   run scripted (fresh_engine cyclic_flowchart ''system'' ''S'') ''input'' ([], []) = None"
proof
  show "init cyclic_flowchart ''system'' = Inr (fresh_engine cyclic_flowchart ''system'' ''S'')"
    by code_simp
  show "run scripted (fresh_engine cyclic_flowchart ''system'' ''S'') ''input'' ([], []) = None"
  proof (rule ccontr)
    assume "run scripted (fresh_engine cyclic_flowchart ''system'' ''S'') ''input'' ([], []) \<noteq> None"
    then obtain y where
      "run scripted (fresh_engine cyclic_flowchart ''system'' ''S'') ''input'' ([], []) = Some y"
      by (auto simp del: not_None_eq)
    then have "run_loop scripted
       \<lparr>self = (fresh_engine cyclic_flowchart ''system'' ''S'')\<lparr>visited_nodes := [], decisions := []\<rparr>,
        current_node_id = ''S'', initial_input = ''input'', traversal = []\<rparr> ([], []) = Some y"
      by (simp add: run_def fresh_engine_def)
    from cyclic_never_returns[OF this] show False by (simp add: fresh_engine_def)
  qed
qed

text \<open>
  C2, amended: there is no cap on the visits, and for every behaviour of the collaborator
  \<^verbatim>\<open>run\<close> ends, by returning at a node with empty connections or by an exception,
  on every flowchart whose connections all lead to a node of strictly smaller rank, that
  is on every acyclic flowchart.
\<close>

theorem run_terminates_on_acyclic:
  fixes rank :: "string \<Rightarrow> nat"
  assumes "\<forall>(i, n) \<in> set (flowchart slf). \<forall>t \<in> snd ` set (get_connections n). rank t < rank i"
  shows "\<exists>out s' w'. run env slf input_string w = Some (out, s', w') \<and>
           (\<forall>r ex. out = Inr (r, ex) \<longrightarrow>
              (\<exists>n. map_of (flowchart slf) (current_node_id s') = Some n \<and>
                   get_connections n = []))"
proof -
  let ?s = "\<lparr>self = slf\<lparr>visited_nodes := [], decisions := []\<rparr>,
        current_node_id = start_node slf, initial_input = input_string, traversal = []\<rparr>"
  have a: "\<forall>(i, n) \<in> set (flowchart (self ?s)).
      \<forall>t \<in> snd ` set (get_connections n). rank t < rank i"
    using assms by simp
  from run_loop_terminates[OF a, of env w] obtain out s' w' where
    r: "run_loop env ?s w = Some (out, s', w')" and
    t: "\<forall>r ex. out = Inr (r, ex) \<longrightarrow>
          (\<exists>n. map_of (flowchart (self s')) (current_node_id s') = Some n \<and>
               get_connections n = [])"
    by blast
  have "flowchart (self s') = flowchart slf"
    using run_loop_flowchart[OF r] by simp
  with r t show ?thesis by (simp add: run_def)
qed

theorem run_terminates_on_acyclic_witness:
  "\<exists>out s' w'.
     run scripted (fresh_engine routing_flowchart ''system'' ''A'') ''input''
       ([decision_result ''because'' ''No'', PyStr ''Fine.''], []) = Some (out, s', w') \<and>
     (\<forall>r ex. out = Inr (r, ex) \<longrightarrow>
        (\<exists>n. map_of routing_flowchart (current_node_id s') = Some n \<and>
             get_connections n = []))"
proof -
  let ?rank = "\<lambda>i. if i = ''A'' then 1 else (0::nat)"
  have "\<forall>(i, n) \<in> set (flowchart (fresh_engine routing_flowchart ''system'' ''A'')).
          \<forall>t \<in> snd ` set (get_connections n). ?rank t < ?rank i"
    by (simp add: fresh_engine_def routing_flowchart_def text_node_def get_connections_def)
  from run_terminates_on_acyclic[OF this, of scripted "''input''"
      "([decision_result ''because'' ''No'', PyStr ''Fine.''], [])"]
  show ?thesis by (simp add: fresh_engine_def)
qed

subsection \<open>Start node\<close>

text \<open>
  C3, as the claim states it, fails: with two node ids that no connection leads to, the
  constructor does not fail; it takes the first of them.
\<close>

theorem two_candidates_accepted:
  "\<not> is_target two_start_flowchart ''A'' \<and> \<not> is_target two_start_flowchart ''B'' \<and>
   init two_start_flowchart ''system'' = Inr (fresh_engine two_start_flowchart ''system'' ''A'')"
  by code_simp

text \<open>
  C3, amended: the constructor selects the first node id, in the order of declaration,
  that appears in no node's connections values, which is the unique such id when there is
  exactly one; it raises \<^verbatim>\<open>StopIteration\<close> when there is none, and it does not fail when
  there are several.
\<close>

theorem start_node_first_candidate:
  "(case init fc sp of
      Inl e \<Rightarrow> e = StopIteration \<and> (\<forall>i \<in> set (map fst fc). is_target fc i)
    | Inr e \<Rightarrow>
        e = fresh_engine fc sp (start_node e) \<and> \<not> is_target fc (start_node e) \<and>
        (\<exists>pre post. map fst fc = pre @ start_node e # post \<and>
           (\<forall>i \<in> set pre. is_target fc i))) \<and>
   (i \<in> set (map fst fc) \<and> \<not> is_target fc i \<and>
    (\<forall>j \<in> set (map fst fc). \<not> is_target fc j \<longrightarrow> j = i) \<longrightarrow>
      init fc sp = Inr (fresh_engine fc sp i))"
proof
  show "case init fc sp of
      Inl e \<Rightarrow> e = StopIteration \<and> (\<forall>i \<in> set (map fst fc). is_target fc i)
    | Inr e \<Rightarrow>
        e = fresh_engine fc sp (start_node e) \<and> \<not> is_target fc (start_node e) \<and>
        (\<exists>pre post. map fst fc = pre @ start_node e # post \<and>
           (\<forall>i \<in> set pre. is_target fc i))"
  proof (cases "find (\<lambda>node_id. \<not> is_target fc node_id) (map fst fc)")
    case None
    then have "init fc sp = Inl StopIteration" by (simp add: init_def)
    moreover from None have "\<forall>i \<in> set (map fst fc). is_target fc i"
      by (simp add: find_None_iff)
    ultimately show ?thesis by simp
  next
    case (Some x)
    from find_first[OF Some] obtain pre post where
      "map fst fc = pre @ x # post" "\<not> is_target fc x" "\<forall>y \<in> set pre. is_target fc y"
      by auto
    with Some show ?thesis by (auto simp add: init_def fresh_engine_def)
  qed
  show "i \<in> set (map fst fc) \<and> \<not> is_target fc i \<and>
    (\<forall>j \<in> set (map fst fc). \<not> is_target fc j \<longrightarrow> j = i) \<longrightarrow>
      init fc sp = Inr (fresh_engine fc sp i)"
  proof
    assume a: "i \<in> set (map fst fc) \<and> \<not> is_target fc i \<and>
      (\<forall>j \<in> set (map fst fc). \<not> is_target fc j \<longrightarrow> j = i)"
    then have "find (\<lambda>node_id. \<not> is_target fc node_id) (map fst fc) = Some i"
      by (intro find_unique) auto
    then show "init fc sp = Inr (fresh_engine fc sp i)"
      by (simp add: init_def fresh_engine_def)
  qed
qed

theorem start_node_first_candidate_witness:
  "init routing_flowchart ''system'' = Inr (fresh_engine routing_flowchart ''system'' ''A'')"
proof -
  have ids: "map fst routing_flowchart = [''A'', ''B'', ''C'']"
    by (simp add: routing_flowchart_def)
  have t: "\<not> is_target routing_flowchart ''A''" "is_target routing_flowchart ''B''"
    "is_target routing_flowchart ''C''"
    by code_simp+
  have "''A'' \<in> set (map fst routing_flowchart) \<and> \<not> is_target routing_flowchart ''A'' \<and>
    (\<forall>j \<in> set (map fst routing_flowchart). \<not> is_target routing_flowchart j \<longrightarrow> j = ''A'')"
    unfolding ids using t by simp
  with start_node_first_candidate[of routing_flowchart "''system''" "''A''"]
  show ?thesis by blast
qed

subsection \<open>Empty loop\<close>

text \<open>
  C4. At the first entry of a LoopStart node whose collection resolves to the empty
  sequence, the loop dispatch of the specification calls no model (the state of the
  collaborator is returned as it was) and advances to the \<^verbatim>\<open>"Complete"\<close> target of the paired
  LoopContinue node: the trace gets the entry of the LoopStart node only, with that target
  as next node, so no node of the loop body is visited.
\<close>

theorem empty_loop_skips_body:
  assumes "map_of fc (currentNodeId c) = Some n"
    and "ntype n = Some ''loop_start''"
    and "iterator n = Some it"
    and "collection n = Some field"
    and "resolve_collection (extractedByNodeId c) field = Inr []"
    and "paired (currentNodeId c) = Some loop_continue_id"
    and "map_of fc loop_continue_id = Some m"
    and "map_of (get_connections m) ''Complete'' = Some target"
  shows "\<exists>c'. loop_start paired fc c w = (Inr c', w) \<and>
           currentNodeId c' = target \<and>
           traceLog c' = traceLog c @ [\<lparr>entry_node = currentNodeId c, entry_next = target\<rparr>] \<and>
           extractedByNodeId c' = extractedByNodeId c"
  using assms by (simp add: loop_start_def complete_target_def advance_def)

theorem empty_loop_skips_body_witness:
  "\<exists>c'. loop_start (\<lambda>i. if i = ''StartPlanLoop'' then Some ''NextPlan'' else None)
          week_analyser_loop_nodes
          \<lparr>currentNodeId = ''StartPlanLoop'',
           extractedByNodeId =
             [(''ExtractPlanNames'', PyModel ''AllPlanNamesSchema'' [(''plan_names'', FList [])])],
           loopStack = [],
           traceLog = [\<lparr>entry_node = ''Start'', entry_next = ''ExtractPlanNames''\<rparr>,
                       \<lparr>entry_node = ''ExtractPlanNames'', entry_next = ''StartPlanLoop''\<rparr>]\<rparr>
          ([PyStr ''Fine.''], [''prompt'']) = (Inr c', [PyStr ''Fine.''], [''prompt'']) \<and>
        currentNodeId c' = ''Conclude'' \<and>
        traceLog c' =
          [\<lparr>entry_node = ''Start'', entry_next = ''ExtractPlanNames''\<rparr>,
           \<lparr>entry_node = ''ExtractPlanNames'', entry_next = ''StartPlanLoop''\<rparr>,
           \<lparr>entry_node = ''StartPlanLoop'', entry_next = ''Conclude''\<rparr>]"
proof -
  let ?c = "\<lparr>currentNodeId = ''StartPlanLoop'',
           extractedByNodeId =
             [(''ExtractPlanNames'', PyModel ''AllPlanNamesSchema'' [(''plan_names'', FList [])])],
           loopStack = [],
           traceLog = [\<lparr>entry_node = ''Start'', entry_next = ''ExtractPlanNames''\<rparr>,
                       \<lparr>entry_node = ''ExtractPlanNames'', entry_next = ''StartPlanLoop''\<rparr>]\<rparr>"
  let ?paired = "\<lambda>i. if i = ''StartPlanLoop'' then Some ''NextPlan'' else None"
  let ?n = "\<lparr>ntext = None, connections = Some [(''default'', ''CheckPlanDiscussed'')],
        schema = None, temperature = None, ntype = Some ''loop_start'',
        iterator = Some ''current_plan'', collection = Some ''plan_names''\<rparr>"
  let ?m = "\<lparr>ntext = None,
        connections = Some [(''HasMore'', ''StartPlanLoop''), (''Complete'', ''Conclude'')],
        schema = None, temperature = None, ntype = Some ''loop_continue'',
        iterator = None, collection = None\<rparr>"
  have 1: "map_of week_analyser_loop_nodes (currentNodeId ?c) = Some ?n"
    by (simp add: week_analyser_loop_nodes_def)
  have 2: "ntype ?n = Some ''loop_start''" by simp
  have 3: "iterator ?n = Some ''current_plan''" by simp
  have 4: "collection ?n = Some ''plan_names''" by simp
  have 5: "resolve_collection (extractedByNodeId ?c) ''plan_names'' = Inr []"
    by (simp add: resolve_collection_def List.map_filter_simps)
  have 6: "?paired (currentNodeId ?c) = Some ''NextPlan''" by simp
  have 7: "map_of week_analyser_loop_nodes ''NextPlan'' = Some ?m"
    by (simp add: week_analyser_loop_nodes_def)
  have 8: "map_of (get_connections ?m) ''Complete'' = Some ''Conclude''"
    by (simp add: get_connections_def)
  from empty_loop_skips_body[where paired = ?paired and c = ?c
        and w = "([PyStr ''Fine.''], [''prompt''])", OF 1 2 3 4 5 6 7 8]
  obtain c' where
    "loop_start ?paired week_analyser_loop_nodes ?c ([PyStr ''Fine.''], [''prompt'']) =
       (Inr c', [PyStr ''Fine.''], [''prompt''])"
    "currentNodeId c' = ''Conclude''"
    "traceLog c' = traceLog ?c @ [\<lparr>entry_node = currentNodeId ?c, entry_next = ''Conclude''\<rparr>]"
    by blast
  then show ?thesis by (intro exI[of _ c']) simp
qed

subsection \<open>Tokens in the text\<close>



subsection \<open>Context block\<close>

text \<open>
  C6, as the claim states it, fails: the context line of a value does not name the node
  that extracted it. After node \<open>E\<close> has extracted a \<^verbatim>\<open>PlanNameSchema\<close>, the prompt of the
  next node holds \<^verbatim>\<open>Context: PlanNameSchema: {'plan_name': 'run'}\<close> and nowhere the text
  \<^verbatim>\<open>E: PlanNameSchema\<close>.
\<close>

theorem context_line_has_no_node_id:
  "map_option (snd \<circ> snd)
     (run scripted (fresh_engine extraction_flowchart ''system'' ''D'') ''input''
        ([decision_result ''because'' ''Yes'',
          PyModel ''PlanNameSchema'' [(''plan_name'', FStr ''run'')], PyStr ''Fine.''], [])) =
   Some ([],
         [full_prompt ''Anything new?'' ''input'',
          full_prompt ''Extract it.'' ''input'',
          full_prompt
            (''Tell.'' @ [CHR 0x0A, CHR 0x0A] @ ''Context: PlanNameSchema: {'' @ [CHR 0x27]
               @ ''plan_name'' @ [CHR 0x27] @ '': '' @ [CHR 0x27] @ ''run'' @ [CHR 0x27] @ ''}'')
            ''input'']) \<and>
   \<not> sublist ''E: PlanNameSchema''
       (full_prompt
          (''Tell.'' @ [CHR 0x0A, CHR 0x0A] @ ''Context: PlanNameSchema: {'' @ [CHR 0x27]
             @ ''plan_name'' @ [CHR 0x27] @ '': '' @ [CHR 0x27] @ ''run'' @ [CHR 0x27] @ ''}'')
          ''input'')"
  by code_simp

text \<open>
  C6, amended: the rendered prompt is the text of the node followed, in the order in which
  node ids entered the map of extractions, by one block per extracted value, made of two
  newlines and \<^verbatim>\<open>Context: <schemaName>: <dict>\<close>. With Python's formatting of a dictionary,
  the dictionary of a model is written with every field of the value, in the order of
  its fields, each as the \<^verbatim>\<open>repr\<close> of its name, a colon and the \<^verbatim>\<open>repr\<close> of its value; the
  node id is not rendered. A value that a node with one connection and a schema extracts
  is stored under the id of the node, after the earlier ids when the id is new; its block
  and the blocks of the values of the other nodes are part of every prompt rendered from
  the resulting map.
\<close>

theorem context_block:
  assumes "map_of (flowchart (self s)) (current_node_id s) = Some n"
    and "ntext n = Some txt"
    and "get_connections n = [(label, target)]"
    and "schema n = Some sc"
    and "ask_schema env
           (full_prompt (node_prompt env txt (extracted (self s))) (initial_input s))
           (system_prompt (self s)) (Schema sc) (LLM_MODEL env) w = (Inr v, w')"
    and "dict_str env = (\<lambda>fields. py_repr (FDict fields))"
  shows "node_prompt env txt' ex =
           txt' @ concat (map (\<lambda>(node_id, data).
             [CHR 0x0A, CHR 0x0A] @ ''Context: '' @ class_name data @ '': '' @
             (case data of
                PyStr str \<Rightarrow> str
              | PyModel c fs \<Rightarrow>
                  ''{'' @ join '', '' (map (\<lambda>(k, v). repr_str k @ '': '' @ py_repr v) fs)
                    @ ''}'')) ex) \<and>
         (\<exists>s'. step env s w = (Continue, s', w') \<and>
            extracted (self s') = AList.update (current_node_id s) v (extracted (self s)) \<and>
            (current_node_id s \<notin> fst ` set (extracted (self s)) \<longrightarrow>
               extracted (self s') = extracted (self s) @ [(current_node_id s, v)]) \<and>
            sublist (context_line env v) (node_prompt env txt' (extracted (self s'))) \<and>
            (\<forall>node_id d. node_id \<noteq> current_node_id s \<and>
               map_of (extracted (self s)) node_id = Some d \<longrightarrow>
               sublist (context_line env d) (node_prompt env txt' (extracted (self s')))))"
proof
  have "context_line env data = [CHR 0x0A, CHR 0x0A] @ ''Context: '' @ class_name data @ '': '' @
             (case data of
                PyStr str \<Rightarrow> str
              | PyModel c fs \<Rightarrow>
                  ''{'' @ join '', '' (map (\<lambda>(k, v). repr_str k @ '': '' @ py_repr v) fs)
                    @ ''}'')" for data
    by (cases data) (simp_all add: context_line_def assms(6))
  then show "node_prompt env txt' ex =
           txt' @ concat (map (\<lambda>(node_id, data).
             [CHR 0x0A, CHR 0x0A] @ ''Context: '' @ class_name data @ '': '' @
             (case data of
                PyStr str \<Rightarrow> str
              | PyModel c fs \<Rightarrow>
                  ''{'' @ join '', '' (map (\<lambda>(k, v). repr_str k @ '': '' @ py_repr v) fs)
                    @ ''}'')) ex)"
    by (simp add: node_prompt_concat)
  let ?ex' = "AList.update (current_node_id s) v (extracted (self s))"
  have "map_of ?ex' (current_node_id s) = Some v"
    by (simp add: update_conv')
  then have new: "sublist (context_line env v) (node_prompt env txt' ?ex')"
    by (rule context_line_in_prompt)
  have fresh: "current_node_id s \<notin> fst ` set (extracted (self s)) \<longrightarrow>
      ?ex' = extracted (self s) @ [(current_node_id s, v)]"
    by (simp add: update_fresh)
  have old: "sublist (context_line env d) (node_prompt env txt' ?ex')"
    if "node_id \<noteq> current_node_id s \<and> map_of (extracted (self s)) node_id = Some d"
    for node_id d
  proof -
    from that have "map_of ?ex' node_id = Some d" by (simp add: update_conv')
    then show ?thesis by (rule context_line_in_prompt)
  qed
  from new fresh old
  show "\<exists>s'. step env s w = (Continue, s', w') \<and>
            extracted (self s') = ?ex' \<and>
            (current_node_id s \<notin> fst ` set (extracted (self s)) \<longrightarrow>
               extracted (self s') = extracted (self s) @ [(current_node_id s, v)]) \<and>
            sublist (context_line env v) (node_prompt env txt' (extracted (self s'))) \<and>
            (\<forall>node_id d. node_id \<noteq> current_node_id s \<and>
               map_of (extracted (self s)) node_id = Some d \<longrightarrow>
               sublist (context_line env d) (node_prompt env txt' (extracted (self s'))))"
    by (simp add: extraction_step[OF assms(1-5)])
qed

theorem context_block_witness:
  "\<exists>s'. step scripted
       \<lparr>self = (fresh_engine two_extractions_flowchart ''system'' ''Analyse'')
                 \<lparr>extracted :=
                    [(''Analyse'',
                      PyModel ''PlanAnalysisSchema''
                        [(''plan_name'', FStr ''run''), (''plan_analysis'', FStr ''it's on track''),
                         (''plan_adjustment'', FStr ''none'')])]\<rparr>,
        current_node_id = ''Names'', initial_input = ''input'', traversal = []\<rparr>
       ([PyModel ''AllPlanNamesSchema'' [(''plan_names'', FList [FStr ''run'', FStr ''read''])],
         PyStr ''Fine.''], []) =
         (Continue, s', [PyStr ''Fine.''],
          [full_prompt
             (''Extract all plan names.'' @ [CHR 0x0A, CHR 0x0A] @
              ''Context: PlanAnalysisSchema: {'plan_name': 'run', 'plan_analysis': '' @ [CHR 0x22]
                @ ''it's on track'' @ [CHR 0x22] @ '', 'plan_adjustment': 'none'}'')
             ''input'']) \<and>
       extracted (self s') =
         [(''Analyse'',
           PyModel ''PlanAnalysisSchema''
             [(''plan_name'', FStr ''run''), (''plan_analysis'', FStr ''it's on track''),
              (''plan_adjustment'', FStr ''none'')]),
          (''Names'',
           PyModel ''AllPlanNamesSchema'' [(''plan_names'', FList [FStr ''run'', FStr ''read''])])] \<and>
       node_prompt scripted ''Tell.'' (extracted (self s')) =
         ''Tell.'' @ [CHR 0x0A, CHR 0x0A] @
         ''Context: PlanAnalysisSchema: {'plan_name': 'run', 'plan_analysis': '' @ [CHR 0x22]
           @ ''it's on track'' @ [CHR 0x22] @ '', 'plan_adjustment': 'none'}'' @
         [CHR 0x0A, CHR 0x0A] @ ''Context: AllPlanNamesSchema: {'plan_names': ['run', 'read']}''"
proof -
  let ?a = "PyModel ''PlanAnalysisSchema''
             [(''plan_name'', FStr ''run''), (''plan_analysis'', FStr ''it's on track''),
              (''plan_adjustment'', FStr ''none'')]"
  let ?v = "PyModel ''AllPlanNamesSchema'' [(''plan_names'', FList [FStr ''run'', FStr ''read''])]"
  let ?s = "\<lparr>self = (fresh_engine two_extractions_flowchart ''system'' ''Analyse'')
                 \<lparr>extracted := [(''Analyse'', ?a)]\<rparr>,
        current_node_id = ''Names'', initial_input = ''input'', traversal = []\<rparr>"
  let ?n = "(text_node ''Extract all plan names.'' [(''default'', ''Tell'')])
                    \<lparr>schema := Some ''AllPlanNamesSchema''\<rparr>"
  let ?p = "full_prompt
             (''Extract all plan names.'' @ [CHR 0x0A, CHR 0x0A] @
              ''Context: PlanAnalysisSchema: {'plan_name': 'run', 'plan_analysis': '' @ [CHR 0x22]
                @ ''it's on track'' @ [CHR 0x22] @ '', 'plan_adjustment': 'none'}'')
             ''input''"
  have 1: "map_of (flowchart (self ?s)) (current_node_id ?s) = Some ?n"
    by (simp add: fresh_engine_def two_extractions_flowchart_def)
  have 2: "ntext ?n = Some ''Extract all plan names.''" by (simp add: text_node_def)
  have 3: "get_connections ?n = [(''default'', ''Tell'')]"
    by (simp add: text_node_def get_connections_def)
  have 4: "schema ?n = Some ''AllPlanNamesSchema''" by simp
  have p: "full_prompt (node_prompt scripted ''Extract all plan names.'' [(''Analyse'', ?a)])
             ''input'' = ?p"
    by code_simp
  have 5: "ask_schema scripted
           (full_prompt (node_prompt scripted ''Extract all plan names.'' (extracted (self ?s)))
              (initial_input ?s))
           (system_prompt (self ?s)) (Schema ''AllPlanNamesSchema'') (LLM_MODEL scripted)
           ([?v, PyStr ''Fine.''], []) = (Inr ?v, [PyStr ''Fine.''], [?p])"
    using p by (simp add: scripted_def answer_def fresh_engine_def)
  have 6: "dict_str scripted = (\<lambda>fields. py_repr (FDict fields))"
    by (simp add: scripted_def)
  have q: "node_prompt scripted ''Tell.'' [(''Analyse'', ?a), (''Names'', ?v)] =
         ''Tell.'' @ [CHR 0x0A, CHR 0x0A] @
         ''Context: PlanAnalysisSchema: {'plan_name': 'run', 'plan_analysis': '' @ [CHR 0x22]
           @ ''it's on track'' @ [CHR 0x22] @ '', 'plan_adjustment': 'none'}'' @
         [CHR 0x0A, CHR 0x0A] @ ''Context: AllPlanNamesSchema: {'plan_names': ['run', 'read']}''"
    by code_simp
  from context_block[OF 1 2 3 4 5 6, of "''Tell.''" "[]"]
  obtain s' where
    "step scripted ?s ([?v, PyStr ''Fine.''], []) = (Continue, s', [PyStr ''Fine.''], [?p])"
    "extracted (self s') = AList.update (current_node_id ?s) ?v (extracted (self ?s))"
    by blast
  then show ?thesis
    using q by (intro exI[of _ s']) (simp add: fresh_engine_def)
qed

subsection \<open>Validation\<close>

text \<open>
  C7, as the claim states it, fails: the constructor accepts a flowchart in which a node
  declares a schema and two connections and one connection leads to an undeclared id. The
  undeclared id raises \<^verbatim>\<open>KeyError\<close> only when the run reaches it, and the node with the
  schema runs as a decision.
\<close>

theorem construction_validates_nothing:
  "init unchecked_flowchart ''system'' = Inr (fresh_engine unchecked_flowchart ''system'' ''A'') \<and>
   map_option fst
     (run scripted (fresh_engine unchecked_flowchart ''system'' ''A'') ''input''
        ([decision_result ''because'' ''No''], [])) =
   Some (Inl (KeyError ''Nowhere'')) \<and>
   map_option fst
     (run scripted (fresh_engine unchecked_flowchart ''system'' ''A'') ''input''
        ([decision_result ''because'' ''Yes'', PyStr ''Fine.''], [])) =
   Some (Inr (PyStr ''Fine.'', []))"
  by code_simp

text \<open>
  C7, amended: the constructor validates nothing. It succeeds whenever some node id is not
  a connection target, whatever the targets and schemas are. A connection target that is
  not declared raises \<^verbatim>\<open>KeyError\<close> at the visit of that id, and a node that declares a
  schema and more than one connection is visited as a decision node, its schema unused.
\<close>

theorem validation_at_visit_only:
  "((\<exists>i \<in> set (map fst fc). \<not> is_target fc i) \<longrightarrow>
      (\<exists>start. init fc sp = Inr (fresh_engine fc sp start))) \<and>
   (map_of (flowchart (self s)) (current_node_id s) = None \<longrightarrow>
      step env s w = (Raise (KeyError (current_node_id s)), s, w)) \<and>
   (map_of (flowchart (self s)) (current_node_id s) = Some n \<and> ntext n = Some txt \<and>
    1 < length (get_connections n) \<and> schema n = Some sc \<and>
    ask_schema env
      (full_prompt (node_prompt env txt (extracted (self s))) (initial_input s))
      (system_prompt (self s)) (DecisionSchema (map fst (get_connections n)))
      (LLM_MODEL env) w = (Inr result, w') \<and>
    getattr_str result ''decision'' = Inr label \<and>
    getattr_str result ''reasoning'' = Inr why \<longrightarrow>
      (\<exists>s'. step env s w = (Continue, s', w') \<and>
         current_node_id s' = next_of_decision (get_connections n) label))"
proof (intro conjI impI)
  assume "\<exists>i \<in> set (map fst fc). \<not> is_target fc i"
  then have "find (\<lambda>node_id. \<not> is_target fc node_id) (map fst fc) \<noteq> None"
    by (simp add: find_None_iff)
  then obtain x where "find (\<lambda>node_id. \<not> is_target fc node_id) (map fst fc) = Some x"
    by (auto simp del: not_None_eq)
  then have "init fc sp = Inr (fresh_engine fc sp x)"
    by (simp add: init_def fresh_engine_def)
  then show "\<exists>start. init fc sp = Inr (fresh_engine fc sp start)" ..
next
  assume "map_of (flowchart (self s)) (current_node_id s) = None"
  then show "step env s w = (Raise (KeyError (current_node_id s)), s, w)"
    by (simp add: step_def)
next
  assume a: "map_of (flowchart (self s)) (current_node_id s) = Some n \<and> ntext n = Some txt \<and>
    1 < length (get_connections n) \<and> schema n = Some sc \<and>
    ask_schema env
      (full_prompt (node_prompt env txt (extracted (self s))) (initial_input s))
      (system_prompt (self s)) (DecisionSchema (map fst (get_connections n)))
      (LLM_MODEL env) w = (Inr result, w') \<and>
    getattr_str result ''decision'' = Inr label \<and>
    getattr_str result ''reasoning'' = Inr why"
  from decision_step[of s n "txt" env w result w' label why] a
  show "\<exists>s'. step env s w = (Continue, s', w') \<and>
         current_node_id s' = next_of_decision (get_connections n) label"
    by blast
qed

theorem validation_at_visit_only_witness:
  "(\<exists>start. init unchecked_flowchart ''system'' =
       Inr (fresh_engine unchecked_flowchart ''system'' start)) \<and>
   step scripted
     \<lparr>self = fresh_engine unchecked_flowchart ''system'' ''A'', current_node_id = ''Nowhere'',
      initial_input = ''input'', traversal = []\<rparr> ([], []) =
   (Raise (KeyError ''Nowhere''),
    \<lparr>self = fresh_engine unchecked_flowchart ''system'' ''A'', current_node_id = ''Nowhere'',
      initial_input = ''input'', traversal = []\<rparr>, [], []) \<and>
   (\<exists>s'. step scripted
       \<lparr>self = fresh_engine unchecked_flowchart ''system'' ''A'', current_node_id = ''A'',
        initial_input = ''input'', traversal = []\<rparr>
       ([decision_result ''because'' ''Yes'', PyStr ''Fine.''], []) =
         (Continue, s', [PyStr ''Fine.''], [full_prompt ''Pick.'' ''input'']) \<and>
       current_node_id s' = ''B'')"
proof -
  let ?s = "\<lparr>self = fresh_engine unchecked_flowchart ''system'' ''A'', current_node_id = ''A'',
        initial_input = ''input'', traversal = []\<rparr>"
  let ?t = "\<lparr>self = fresh_engine unchecked_flowchart ''system'' ''A'', current_node_id = ''Nowhere'',
        initial_input = ''input'', traversal = []\<rparr>"
  let ?n = "(text_node ''Pick.'' [(''Yes'', ''B''), (''No'', ''Nowhere'')])
                \<lparr>schema := Some ''PlanNameSchema''\<rparr>"
  have 0: "\<exists>i \<in> set (map fst unchecked_flowchart). \<not> is_target unchecked_flowchart i"
  proof
    show "''A'' \<in> set (map fst unchecked_flowchart)" by (simp add: unchecked_flowchart_def)
    show "\<not> is_target unchecked_flowchart ''A''" by code_simp
  qed
  have 1: "map_of (flowchart (self ?t)) (current_node_id ?t) = None"
    by (simp add: fresh_engine_def unchecked_flowchart_def)
  have 2: "map_of (flowchart (self ?s)) (current_node_id ?s) = Some ?n \<and>
    ntext ?n = Some ''Pick.'' \<and> 1 < length (get_connections ?n) \<and>
    schema ?n = Some ''PlanNameSchema'' \<and>
    ask_schema scripted
      (full_prompt (node_prompt scripted ''Pick.'' (extracted (self ?s))) (initial_input ?s))
      (system_prompt (self ?s)) (DecisionSchema (map fst (get_connections ?n)))
      (LLM_MODEL scripted) ([decision_result ''because'' ''Yes'', PyStr ''Fine.''], []) =
      (Inr (decision_result ''because'' ''Yes''), [PyStr ''Fine.''], [full_prompt ''Pick.'' ''input'']) \<and>
    getattr_str (decision_result ''because'' ''Yes'') ''decision'' = Inr ''Yes'' \<and>
    getattr_str (decision_result ''because'' ''Yes'') ''reasoning'' = Inr ''because''"
    by (simp add: fresh_engine_def unchecked_flowchart_def text_node_def get_connections_def
        scripted_def answer_def getattr_str_def decision_result_def)
  have 3: "next_of_decision (get_connections ?n) ''Yes'' = ''B''"
    by (simp add: next_of_decision_def text_node_def get_connections_def)
  from validation_at_visit_only[of unchecked_flowchart "''system''" ?t scripted "([], [])"
      ?n "''Pick.''" "''PlanNameSchema''" "decision_result ''because'' ''Yes''"
      "([PyStr ''Fine.''], [full_prompt ''Pick.'' ''input''])" "''Yes''" "''because''"]
  have a: "(\<exists>start. init unchecked_flowchart ''system'' =
       Inr (fresh_engine unchecked_flowchart ''system'' start))"
     and b: "step scripted ?t ([], []) = (Raise (KeyError (current_node_id ?t)), ?t, [], [])"
    using 0 1 by blast+
  from validation_at_visit_only[of unchecked_flowchart "''system''" ?s scripted
      "([decision_result ''because'' ''Yes'', PyStr ''Fine.''], [])"
      ?n "''Pick.''" "''PlanNameSchema''" "decision_result ''because'' ''Yes''"
      "([PyStr ''Fine.''], [full_prompt ''Pick.'' ''input''])" "''Yes''" "''because''"] 2
  have c: "\<exists>s'. step scripted ?s ([decision_result ''because'' ''Yes'', PyStr ''Fine.''], []) =
         (Continue, s', [PyStr ''Fine.''], [full_prompt ''Pick.'' ''input'']) \<and>
       current_node_id s' = next_of_decision (get_connections ?n) ''Yes''"
    by blast
  from a b c show ?thesis unfolding 3 by simp
qed

subsection \<open>Terminal node\<close>

text \<open>
  C8. At a node without connections the engine calls the model once, with the schema of
  the node (\<^verbatim>\<open>ask_schema\<close>) when it declares one and as text (\<^verbatim>\<open>ask_text\<close>, with the
  temperature of the node) otherwise; it appends the trace entry of the node and stops.
  Whenever \<^verbatim>\<open>run\<close>, started on an engine and an input, has reached such a node after some
  number of visits, \<^verbatim>\<open>run\<close> returns the pair of that result and the map of the
  extractions (or raises what the model call raised).
\<close>

theorem terminal_visit:
  assumes "map_of (flowchart (self s)) (current_node_id s) = Some n"
    and "ntext n = Some txt"
    and "get_connections n = []"
  shows "step env s w =
     (let prompt = full_prompt (node_prompt env txt (extracted (self s))) (initial_input s);
          s1 = s\<lparr>self := (self s)\<lparr>visited_nodes :=
                  visited_nodes (self s) @ [current_node_id s]\<rparr>\<rparr> in
      case (case schema n of
              Some sc \<Rightarrow>
                ask_schema env prompt (system_prompt (self s)) (Schema sc) (LLM_MODEL env) w
            | None \<Rightarrow>
                ask_text env prompt (system_prompt (self s)) (LLM_MODEL env)
                  (case temperature n of None \<Rightarrow> 7 / 10 | Some t \<Rightarrow> t) w) of
        (Inl e, w') \<Rightarrow> (Raise e, s1, w')
      | (Inr result, w') \<Rightarrow>
          (Return result (extracted (self s)),
           s1\<lparr>traversal := traversal s @
                 [[(''node'', EStr (current_node_id s)), (''text'', EStr txt),
                   (''options'', EOptions [])]]\<rparr>, w')) \<and>
    run_loop env s w =
     (let prompt = full_prompt (node_prompt env txt (extracted (self s))) (initial_input s);
          s1 = s\<lparr>self := (self s)\<lparr>visited_nodes :=
                  visited_nodes (self s) @ [current_node_id s]\<rparr>\<rparr> in
      case (case schema n of
              Some sc \<Rightarrow>
                ask_schema env prompt (system_prompt (self s)) (Schema sc) (LLM_MODEL env) w
            | None \<Rightarrow>
                ask_text env prompt (system_prompt (self s)) (LLM_MODEL env)
                  (case temperature n of None \<Rightarrow> 7 / 10 | Some t \<Rightarrow> t) w) of
        (Inl e, w') \<Rightarrow> Some (Inl e, s1, w')
      | (Inr result, w') \<Rightarrow>
          Some (Inr (result, extracted (self s)),
                s1\<lparr>traversal := traversal s @
                      [[(''node'', EStr (current_node_id s)), (''text'', EStr txt),
                        (''options'', EOptions [])]]\<rparr>, w')) \<and>
    (after_visits env k
       \<lparr>self = slf\<lparr>visited_nodes := [], decisions := []\<rparr>,
        current_node_id = start_node slf, initial_input = input_string, traversal = []\<rparr> w0 =
       Some (s, w) \<longrightarrow>
     run env slf input_string w0 =
     (let prompt = full_prompt (node_prompt env txt (extracted (self s))) (initial_input s);
          s1 = s\<lparr>self := (self s)\<lparr>visited_nodes :=
                  visited_nodes (self s) @ [current_node_id s]\<rparr>\<rparr> in
      case (case schema n of
              Some sc \<Rightarrow>
                ask_schema env prompt (system_prompt (self s)) (Schema sc) (LLM_MODEL env) w
            | None \<Rightarrow>
                ask_text env prompt (system_prompt (self s)) (LLM_MODEL env)
                  (case temperature n of None \<Rightarrow> 7 / 10 | Some t \<Rightarrow> t) w) of
        (Inl e, w') \<Rightarrow> Some (Inl e, s1, w')
      | (Inr result, w') \<Rightarrow>
          Some (Inr (result, extracted (self s)),
                s1\<lparr>traversal := traversal s @
                      [[(''node'', EStr (current_node_id s)), (''text'', EStr txt),
                        (''options'', EOptions [])]]\<rparr>, w')))"
proof -
  have loop: "run_loop env s w =
     (let prompt = full_prompt (node_prompt env txt (extracted (self s))) (initial_input s);
          s1 = s\<lparr>self := (self s)\<lparr>visited_nodes :=
                  visited_nodes (self s) @ [current_node_id s]\<rparr>\<rparr> in
      case (case schema n of
              Some sc \<Rightarrow>
                ask_schema env prompt (system_prompt (self s)) (Schema sc) (LLM_MODEL env) w
            | None \<Rightarrow>
                ask_text env prompt (system_prompt (self s)) (LLM_MODEL env)
                  (case temperature n of None \<Rightarrow> 7 / 10 | Some t \<Rightarrow> t) w) of
        (Inl e, w') \<Rightarrow> Some (Inl e, s1, w')
      | (Inr result, w') \<Rightarrow>
          Some (Inr (result, extracted (self s)),
                s1\<lparr>traversal := traversal s @
                      [[(''node'', EStr (current_node_id s)), (''text'', EStr txt),
                        (''options'', EOptions [])]]\<rparr>, w'))"
    by (subst run_loop.simps, subst terminal_step[OF assms])
       (simp add: Let_def split: prod.splits sum.splits option.splits)
  have reach: "run env slf input_string w0 = run_loop env s w"
    if "after_visits env k
       \<lparr>self = slf\<lparr>visited_nodes := [], decisions := []\<rparr>,
        current_node_id = start_node slf, initial_input = input_string, traversal = []\<rparr> w0 =
       Some (s, w)"
    unfolding run_def using that by (rule after_visits_run_loop)
  show ?thesis
    using terminal_step[OF assms, of env w] loop reach by simp
qed

theorem terminal_visit_witness:
  "run scripted (fresh_engine routing_flowchart ''system'' ''A'') ''input''
     ([decision_result ''because'' ''Yes'', PyStr ''Fine.''], []) =
   Some (Inr (PyStr ''Fine.'', []),
         \<lparr>self = (fresh_engine routing_flowchart ''system'' ''A'')
                   \<lparr>visited_nodes := [''A'', ''B''], decisions := [(''A'', ''Yes'')],
                    reasoning := [(''A'', ''because'')]\<rparr>,
          current_node_id = ''B'', initial_input = ''input'',
          traversal =
            [[(''node'', EStr ''A''), (''text'', EStr ''Is it so?''),
              (''options'', EOptions [''Yes'', ''No'']), (''reasoning'', EStr ''because''),
              (''decision'', EStr ''Yes''), (''next_node'', EStr ''B''),
              (''extracted'', ENone)],
             [(''node'', EStr ''B''), (''text'', EStr ''Say yes.''),
              (''options'', EOptions [])]]\<rparr>,
         [], [full_prompt ''Is it so?'' ''input'', full_prompt ''Say yes.'' ''input'']) \<and>
   run scripted
     (fresh_engine [(''X'', (text_node ''Name it.'' [])\<lparr>schema := Some ''PlanNameSchema''\<rparr>)]
        ''system'' ''X'') ''input''
     ([PyModel ''PlanNameSchema'' [(''plan_name'', FStr ''run'')]], []) =
   Some (Inr (PyModel ''PlanNameSchema'' [(''plan_name'', FStr ''run'')], []),
    \<lparr>self = (fresh_engine [(''X'', (text_node ''Name it.'' [])\<lparr>schema := Some ''PlanNameSchema''\<rparr>)]
               ''system'' ''X'')\<lparr>visited_nodes := [''X'']\<rparr>,
     current_node_id = ''X'', initial_input = ''input'',
     traversal = [[(''node'', EStr ''X''), (''text'', EStr ''Name it.''),
                   (''options'', EOptions [])]]\<rparr>,
    [], [full_prompt ''Name it.'' ''input''])"
proof -
  let ?e = "fresh_engine routing_flowchart ''system'' ''A''"
  let ?s = "\<lparr>self = ?e\<lparr>visited_nodes := [''A''], decisions := [(''A'', ''Yes'')],
                        reasoning := [(''A'', ''because'')]\<rparr>,
             current_node_id = ''B'', initial_input = ''input'',
             traversal =
               [[(''node'', EStr ''A''), (''text'', EStr ''Is it so?''),
                 (''options'', EOptions [''Yes'', ''No'']), (''reasoning'', EStr ''because''),
                 (''decision'', EStr ''Yes''), (''next_node'', EStr ''B''),
                 (''extracted'', ENone)]]\<rparr>"
  let ?n = "text_node ''Say yes.'' []"
  have 1: "map_of (flowchart (self ?s)) (current_node_id ?s) = Some ?n"
    by (simp add: fresh_engine_def routing_flowchart_def)
  have 2: "ntext ?n = Some ''Say yes.''" by (simp add: text_node_def)
  have 3: "get_connections ?n = []" by (simp add: text_node_def get_connections_def)
  have a: "after_visits scripted (Suc 0)
       \<lparr>self = ?e\<lparr>visited_nodes := [], decisions := []\<rparr>,
        current_node_id = start_node ?e, initial_input = ''input'', traversal = []\<rparr>
       ([decision_result ''because'' ''Yes'', PyStr ''Fine.''], []) =
       Some (?s, [PyStr ''Fine.''], [full_prompt ''Is it so?'' ''input''])"
    by code_simp
  let ?f = "fresh_engine [(''X'', (text_node ''Name it.'' [])\<lparr>schema := Some ''PlanNameSchema''\<rparr>)]
               ''system'' ''X''"
  let ?t = "\<lparr>self = ?f\<lparr>visited_nodes := [], decisions := []\<rparr>,
        current_node_id = start_node ?f, initial_input = ''input'', traversal = []\<rparr>"
  let ?m = "(text_node ''Name it.'' [])\<lparr>schema := Some ''PlanNameSchema''\<rparr>"
  have 4: "map_of (flowchart (self ?t)) (current_node_id ?t) = Some ?m"
    by (simp add: fresh_engine_def)
  have 5: "ntext ?m = Some ''Name it.''" by (simp add: text_node_def)
  have 6: "get_connections ?m = []" by (simp add: text_node_def get_connections_def)
  have b: "after_visits scripted 0 ?t
       ([PyModel ''PlanNameSchema'' [(''plan_name'', FStr ''run'')]], []) =
       Some (?t, [PyModel ''PlanNameSchema'' [(''plan_name'', FStr ''run'')]], [])"
    by simp
  show ?thesis
    using terminal_visit[OF 1 2 3, of scripted "([PyStr ''Fine.''], [full_prompt ''Is it so?'' ''input''])"
        "Suc 0" ?e "''input''" "([decision_result ''because'' ''Yes'', PyStr ''Fine.''], [])"] a
      terminal_visit[OF 4 5 6, of scripted
        "([PyModel ''PlanNameSchema'' [(''plan_name'', FStr ''run'')]], [])" 0 ?f "''input''"
        "([PyModel ''PlanNameSchema'' [(''plan_name'', FStr ''run'')]], [])"] b
    by (simp add: Let_def scripted_def answer_def fresh_engine_def text_node_def)
qed

subsection \<open>Extractions across runs\<close>

text \<open>
  C9 fails on the code: \<^verbatim>\<open>run\<close> empties \<^verbatim>\<open>visited_nodes\<close> and \<^verbatim>\<open>decisions\<close> but not
  \<^verbatim>\<open>extracted\<close>. A first run extracts a value at \<open>E\<close>; a second run on the same engine,
  which does not visit \<open>E\<close>, sends that value in both of its prompts and returns it in its
  map of extractions.
\<close>

theorem extracted_survives_run:
  "(case run scripted (fresh_engine extraction_flowchart ''system'' ''D'') ''first''
           ([decision_result ''because'' ''Yes'',
             PyModel ''PlanNameSchema'' [(''plan_name'', FStr ''run'')], PyStr ''Fine.''], []) of
      None \<Rightarrow> False
    | Some (out1, s1, w1) \<Rightarrow>
        out1 = Inr (PyStr ''Fine.'',
                    [(''E'', PyModel ''PlanNameSchema'' [(''plan_name'', FStr ''run'')])]) \<and>
        (case run scripted (self s1) ''second''
                ([decision_result ''because'' ''No'', PyStr ''Bye.''], []) of
           None \<Rightarrow> False
         | Some (out2, s2, w2) \<Rightarrow>
             out2 = Inr (PyStr ''Bye.'',
                         [(''E'', PyModel ''PlanNameSchema'' [(''plan_name'', FStr ''run'')])]) \<and>
             snd w2 =
               [full_prompt
                  (''Anything new?'' @ [CHR 0x0A, CHR 0x0A] @ ''Context: PlanNameSchema: {''
                     @ [CHR 0x27] @ ''plan_name'' @ [CHR 0x27] @ '': '' @ [CHR 0x27] @ ''run''
                     @ [CHR 0x27] @ ''}'') ''second'',
                full_prompt
                  (''Talk.'' @ [CHR 0x0A, CHR 0x0A] @ ''Context: PlanNameSchema: {''
                     @ [CHR 0x27] @ ''plan_name'' @ [CHR 0x27] @ '': '' @ [CHR 0x27] @ ''run''
                     @ [CHR 0x27] @ ''}'') ''second'']))"
  by code_simp

subsection \<open>Node with one connection and no schema\<close>

text \<open>
  C10. At a node with exactly one connection and no schema the engine calls no model,
  whatever the collaborator is: the state of the collaborator is returned as it was, the
  map of extractions is unchanged, the trace gets one entry with the sole target as next
  node, and the engine advances to that target.
\<close>

theorem plain_transition:
  assumes "map_of (flowchart (self s)) (current_node_id s) = Some n"
    and "ntext n = Some txt"
    and "get_connections n = [(label, target)]"
    and "schema n = None"
  shows "step env s w =
     (Continue,
      s\<lparr>self := (self s)\<lparr>visited_nodes := visited_nodes (self s) @ [current_node_id s]\<rparr>,
        traversal := traversal s @
          [[(''node'', EStr (current_node_id s)), (''text'', EStr txt),
            (''options'', EOptions [label]), (''reasoning'', ENone), (''decision'', ENone),
            (''next_node'', EStr target), (''extracted'', ENone)]],
        current_node_id := target\<rparr>, w)"
  using assms by (simp add: step_def Let_def)

theorem plain_transition_witness:
  "step scripted
     \<lparr>self = fresh_engine cyclic_flowchart ''system'' ''S'', current_node_id = ''S'',
      initial_input = ''input'', traversal = []\<rparr> ([PyStr ''Fine.''], []) =
   (Continue,
    \<lparr>self = (fresh_engine cyclic_flowchart ''system'' ''S'')\<lparr>visited_nodes := [''S'']\<rparr>,
     current_node_id = ''A'', initial_input = ''input'',
     traversal = [[(''node'', EStr ''S''), (''text'', EStr ''Start.''),
            (''options'', EOptions [''default'']), (''reasoning'', ENone), (''decision'', ENone),
            (''next_node'', EStr ''A''), (''extracted'', ENone)]]\<rparr>,
    [PyStr ''Fine.''], [])"
proof -
  let ?s = "\<lparr>self = fresh_engine cyclic_flowchart ''system'' ''S'', current_node_id = ''S'',
      initial_input = ''input'', traversal = []\<rparr>"
  let ?n = "text_node ''Start.'' [(''default'', ''A'')]"
  have 1: "map_of (flowchart (self ?s)) (current_node_id ?s) = Some ?n"
    by (simp add: fresh_engine_def cyclic_flowchart_def)
  have 2: "ntext ?n = Some ''Start.''" by (simp add: text_node_def)
  have 3: "get_connections ?n = [(''default'', ''A'')]"
    by (simp add: text_node_def get_connections_def)
  have 4: "schema ?n = None" by (simp add: text_node_def)
  show ?thesis
    using plain_transition[OF 1 2 3 4, of scripted "([PyStr ''Fine.''], [])"]
    by (simp add: fresh_engine_def)
qed

end
